theory Spec2Isabelle
  imports Complex_Main "HOL-Library.Multiset" "HOL-Library.Product_Lexorder"
begin

section \<open>Edge sampling of redner (edge.cpp): a shallow embedding\<close>

text \<open>
  The source computes with \<^verbatim>\<open>Real\<close> (a machine floating point type) and \<^verbatim>\<open>int\<close>.
  Apart from the descent through the edge tree, whose result turns on the rounding of
  single operations and which is modelled with rounded arithmetic, \<^verbatim>\<open>Real\<close> is read as
  the mathematical reals (\<^typ>\<open>real\<close>), so that rounding, infinities and NaN are outside
  the model there; \<^verbatim>\<open>int\<close> is read
  as \<^typ>\<open>int\<close>, since the indices involved are only compared, halved or scaled by small
  constants. Buffers that the functors reach through raw pointers are total maps from
  the index to the stored value; per-shape lists whose order matters are lists. The
  lines that the source prints to \<^verbatim>\<open>std::cerr\<close> and its \<^verbatim>\<open>assert\<close>s, which a release build
  drops, are not part of the model.
\<close>

subsection \<open>Vectors\<close>

datatype Vector2 = Vector2 (x2: real) (y2: real)

datatype Vector3 = Vector3 (x3: real) (y3: real) (z3: real)

text \<open>
  \<^verbatim>\<open>vector.h\<close> is not among the sources. \<^verbatim>\<open>Vector2\<close> and \<^verbatim>\<open>Vector3\<close> are the vectors of
  two and three \<^verbatim>\<open>Real\<close> components, with the componentwise sum, difference and negation
  that \<^verbatim>\<open>edge.cpp\<close> writes as \<open>+\<close> and \<open>-\<close>.
\<close>

instantiation Vector2 :: "{zero, plus, minus, uminus}"
begin
definition zero_Vector2 :: Vector2 where
  "zero_Vector2 = Vector2 0 0"
definition plus_Vector2 :: "Vector2 \<Rightarrow> Vector2 \<Rightarrow> Vector2" where
  "plus_Vector2 a b = Vector2 (x2 a + x2 b) (y2 a + y2 b)"
definition minus_Vector2 :: "Vector2 \<Rightarrow> Vector2 \<Rightarrow> Vector2" where
  "minus_Vector2 a b = Vector2 (x2 a - x2 b) (y2 a - y2 b)"
definition uminus_Vector2 :: "Vector2 \<Rightarrow> Vector2" where
  "uminus_Vector2 a = Vector2 (- x2 a) (- y2 a)"
instance ..
end

instantiation Vector3 :: "{zero, plus, minus, uminus}"
begin
definition zero_Vector3 :: Vector3 where
  "zero_Vector3 = Vector3 0 0 0"
definition plus_Vector3 :: "Vector3 \<Rightarrow> Vector3 \<Rightarrow> Vector3" where
  "plus_Vector3 a b = Vector3 (x3 a + x3 b) (y3 a + y3 b) (z3 a + z3 b)"
definition minus_Vector3 :: "Vector3 \<Rightarrow> Vector3 \<Rightarrow> Vector3" where
  "minus_Vector3 a b = Vector3 (x3 a - x3 b) (y3 a - y3 b) (z3 a - z3 b)"
definition uminus_Vector3 :: "Vector3 \<Rightarrow> Vector3" where
  "uminus_Vector3 a = Vector3 (- x3 a) (- y3 a) (- z3 a)"
instance ..
end

text \<open>Scalar multiples, quotients and the products of \<^verbatim>\<open>vector.h\<close>.\<close>

definition scale2 :: "real \<Rightarrow> Vector2 \<Rightarrow> Vector2" where
  \<comment> \<open>Modelled from the spec: \<^verbatim>\<open>vector.h\<close> is not among the
      sources; the product of a scalar and a screen-space vector.\<close>
  "scale2 s a = Vector2 (s * x2 a) (s * y2 a)"

definition scale3 :: "real \<Rightarrow> Vector3 \<Rightarrow> Vector3" where
  \<comment> \<open>Modelled from the spec: \<^verbatim>\<open>vector.h\<close> is not among the
      sources; the product of a scalar and a vector.\<close>
  "scale3 s a = Vector3 (s * x3 a) (s * y3 a) (s * z3 a)"

definition divide3 :: "Vector3 \<Rightarrow> real \<Rightarrow> Vector3" where
  \<comment> \<open>Modelled from the spec: \<^verbatim>\<open>vector.h\<close> is not among the
      sources; a vector divided by a scalar.\<close>
  "divide3 a s = Vector3 (x3 a / s) (y3 a / s) (z3 a / s)"

definition dot3 :: "Vector3 \<Rightarrow> Vector3 \<Rightarrow> real" where
  \<comment> \<open>Modelled from the spec: \<^verbatim>\<open>vector.h\<close> is not among the
      sources; the dot product, as in the geometry term \<open>|geom_normal .
      dir|\<close>.\<close>
  "dot3 a b = x3 a * x3 b + y3 a * y3 b + z3 a * z3 b"

definition cross3 :: "Vector3 \<Rightarrow> Vector3 \<Rightarrow> Vector3" where
  \<comment> \<open>Modelled from the spec: \<^verbatim>\<open>vector.h\<close> is not among the
      sources; the cross product of two vectors.\<close>
  "cross3 a b = Vector3 (y3 a * z3 b - z3 a * y3 b)
                        (z3 a * x3 b - x3 a * z3 b)
                        (x3 a * y3 b - y3 a * x3 b)"

definition length_squared3 :: "Vector3 \<Rightarrow> real" where
  \<comment> \<open>Modelled from the spec: \<^verbatim>\<open>vector.h\<close> is not among the
      sources; the squared length, as in \<open>dist\<^sup>2\<close>.\<close>
  "length_squared3 a = dot3 a a"

definition length3 :: "Vector3 \<Rightarrow> real" where
  \<comment> \<open>Modelled from the spec: \<^verbatim>\<open>vector.h\<close> is not among the
      sources; the length of a vector.\<close>
  "length3 a = sqrt (length_squared3 a)"

definition normalize3 :: "Vector3 \<Rightarrow> Vector3" where
  \<comment> \<open>Modelled from the spec: \<^verbatim>\<open>vector.h\<close> is not among the
      sources; the vector divided by its length.\<close>
  "normalize3 a = divide3 a (length3 a)"

definition distance_squared3 :: "Vector3 \<Rightarrow> Vector3 \<Rightarrow> real" where
  \<comment> \<open>Modelled from the spec: \<^verbatim>\<open>vector.h\<close> is not among the
      sources; the squared distance of two points, as in \<open>max(distance\<^sup>2,
      \<epsilon>)\<close>.\<close>
  "distance_squared3 a b = length_squared3 (a - b)"

definition distance3 :: "Vector3 \<Rightarrow> Vector3 \<Rightarrow> real" where
  \<comment> \<open>Modelled from the spec: \<^verbatim>\<open>vector.h\<close> is not among the
      sources; the distance of two points, the length of an edge.\<close>
  "distance3 a b = sqrt (distance_squared3 a b)"

definition distance2 :: "Vector2 \<Rightarrow> Vector2 \<Rightarrow> real" where
  \<comment> \<open>Modelled from the spec: \<^verbatim>\<open>vector.h\<close> is not among the
      sources; the distance of two screen points, the screen-space projected
      length.\<close>
  "distance2 a b = sqrt ((x2 a - x2 b)\<^sup>2 + (y2 a - y2 b)\<^sup>2)"

text \<open>A 3x3 matrix by its rows, and its product with a vector.\<close>

datatype Matrix3x3 = Matrix3x3 (row0: Vector3) (row1: Vector3) (row2: Vector3)

definition mat_vec :: "Matrix3x3 \<Rightarrow> Vector3 \<Rightarrow> Vector3" where
  \<comment> \<open>Modelled from the spec: \<^verbatim>\<open>matrix.h\<close> is not among the
      sources; the transform of a vector into the local frame.\<close>
  "mat_vec m a = Vector3 (dot3 (row0 m) a) (dot3 (row1 m) a) (dot3 (row2 m) a)"

subsection \<open>Edges and their extraction from a shape\<close>

text \<open>
  \<^verbatim>\<open>struct Edge { int shape_id, v0, v1, f0, f1; }\<close>, built in the source as
  \<^verbatim>\<open>Edge{shape_id, v0, v1, f0, f1}\<close>.
\<close>

datatype Edge = Edge (edge_shape_id: int) (edge_v0: int) (edge_v1: int)
                     (edge_f0: int) (edge_f1: int)

text \<open>
  Of a shape the extraction reads the triangle list only: \<^verbatim>\<open>get_indices(shape, i)\<close> is
  the index triple of triangle \<open>i\<close>, and \<^verbatim>\<open>num_triangles\<close> their number.
\<close>

type_synonym Vector3i = "int \<times> int \<times> int"

record Shape =
  indices :: "Vector3i list"

definition num_triangles :: "Shape \<Rightarrow> nat" where
  "num_triangles shape = length (indices shape)"

definition get_indices :: "Shape \<Rightarrow> nat \<Rightarrow> Vector3i" where
  "get_indices shape i = indices shape ! i"

text \<open>
  \<^verbatim>\<open>edge_collector::operator()(idx)\<close>: the edge written to \<^verbatim>\<open>edges[idx]\<close>. The
  \<^verbatim>\<open>parallel_for\<close> runs it on \<open>idx = 0, ..., 3 * num_triangles - 1\<close>, so the triangle
  \<open>idx div 3\<close> exists.
\<close>

definition edge_collector :: "int \<Rightarrow> Shape \<Rightarrow> nat \<Rightarrow> Edge" where
  "edge_collector shape_id shape idx =
     (case get_indices shape (idx div 3) of (i0, i1, i2) \<Rightarrow>
        if idx mod 3 = 0 then
          Edge shape_id (min i0 i1) (max i0 i1) (int (idx div 3)) (- 1)
        else if idx mod 3 = 1 then
          Edge shape_id (min i1 i2) (max i1 i2) (int (idx div 3)) (- 1)
        else
          Edge shape_id (min i2 i0) (max i2 i0) (int (idx div 3)) (- 1))"

definition collect_edges :: "int \<Rightarrow> Shape \<Rightarrow> Edge list" where
  "collect_edges shape_id shape =
     map (edge_collector shape_id shape) [0 ..< 3 * num_triangles shape]"

definition edge_less_comparer :: "Edge \<Rightarrow> Edge \<Rightarrow> bool" where
  "edge_less_comparer e0 e1 =
     (if edge_v0 e0 = edge_v0 e1 then edge_v1 e0 < edge_v1 e1
      else edge_v0 e0 < edge_v0 e1)"

definition edge_equal_comparer :: "Edge \<Rightarrow> Edge \<Rightarrow> bool" where
  "edge_equal_comparer e0 e1 = (edge_v0 e0 = edge_v0 e1 \<and> edge_v1 e0 = edge_v1 e1)"

definition edge_merger :: "Edge \<Rightarrow> Edge \<Rightarrow> Edge" where
  "edge_merger e0 e1 =
     Edge (edge_shape_id e0) (edge_v0 e0) (edge_v1 e0) (edge_f0 e0) (edge_f0 e1)"

text \<open>
  \<^verbatim>\<open>thrust::sort\<close> with a comparator is not stable: its result is some rearrangement of
  the input in which no element is less than an earlier one. \<open>sort_result\<close> is that
  contract; \<open>thrust_sort\<close> is one sort (by insertion) that meets it and can be run.
\<close>

definition sort_result :: "('a \<Rightarrow> 'a \<Rightarrow> bool) \<Rightarrow> 'a list \<Rightarrow> 'a list \<Rightarrow> bool" where
  "sort_result lt xs ys =
     (mset ys = mset xs \<and> sorted_wrt (\<lambda>a b. \<not> lt b a) ys)"

fun insert_sorted :: "('a \<Rightarrow> 'a \<Rightarrow> bool) \<Rightarrow> 'a \<Rightarrow> 'a list \<Rightarrow> 'a list" where
  "insert_sorted lt x [] = [x]"
| "insert_sorted lt x (y # ys) =
     (if lt x y then x # y # ys else y # insert_sorted lt x ys)"

definition thrust_sort :: "('a \<Rightarrow> 'a \<Rightarrow> bool) \<Rightarrow> 'a list \<Rightarrow> 'a list" where
  "thrust_sort lt xs = foldr (insert_sorted lt) xs []"

text \<open>
  \<^verbatim>\<open>thrust::reduce_by_key\<close>: every maximal run of consecutive keys that are equal to the
  run's first key (under the predicate) yields one output, the values of the run
  combined from left to right with the binary operation. The source passes the same
  range as keys and as values and the same buffer for both outputs, where the value
  is the one stored last; so keys and values are the edges themselves and the output
  is the combined edge.
\<close>

fun reduce_run :: "('a \<Rightarrow> 'a \<Rightarrow> bool) \<Rightarrow> ('a \<Rightarrow> 'a \<Rightarrow> 'a) \<Rightarrow> 'a \<Rightarrow> 'a \<Rightarrow> 'a list \<Rightarrow> 'a list" where
  "reduce_run eq f k acc [] = [acc]"
| "reduce_run eq f k acc (x # xs) =
     (if eq k x then reduce_run eq f k (f acc x) xs
      else acc # reduce_run eq f x x xs)"

fun reduce_by_key :: "('a \<Rightarrow> 'a \<Rightarrow> bool) \<Rightarrow> ('a \<Rightarrow> 'a \<Rightarrow> 'a) \<Rightarrow> 'a list \<Rightarrow> 'a list" where
  "reduce_by_key eq f [] = []"
| "reduce_by_key eq f (x # xs) = reduce_run eq f x x xs"

text \<open>
  The per-shape body of the loop in \<^verbatim>\<open>EdgeSampler::EdgeSampler\<close>: collect, sort, merge.
  \<open>merge_edges\<close> is the merge of an already sorted range, \<open>extract_edges\<close> the whole
  pipeline with the executable sort, and \<open>extract_all_edges\<close> the concatenation over
  the shapes (the \<^verbatim>\<open>current_num_edges\<close> offset of the source).
\<close>

definition merge_edges :: "Edge list \<Rightarrow> Edge list" where
  "merge_edges sorted_edges = reduce_by_key edge_equal_comparer edge_merger sorted_edges"

definition extract_edges :: "int \<Rightarrow> Shape \<Rightarrow> Edge list" where
  "extract_edges shape_id shape =
     merge_edges (thrust_sort edge_less_comparer (collect_edges shape_id shape))"

definition extract_all_edges :: "Shape list \<Rightarrow> Edge list" where
  "extract_all_edges shapes =
     concat (map (\<lambda>(shape_id, shape). extract_edges (int shape_id) shape)
                 (zip [0 ..< length shapes] shapes))"

definition edge_key :: "Edge \<Rightarrow> int \<times> int" where
  "edge_key e = (edge_v0 e, edge_v1 e)"

lemma edge_equal_comparer_key: "edge_equal_comparer a b \<longleftrightarrow> edge_key a = edge_key b"
  by (simp add: edge_equal_comparer_def edge_key_def)

text \<open>
  Vocabulary for stating what the extraction produces: the three edges and the three
  vertex pairs of one triangle, the occurrences of an edge's vertex pair in a list of
  edges, and triangles whose three vertex indices differ.
\<close>

definition triangle_edges :: "int \<Rightarrow> nat \<Rightarrow> Vector3i \<Rightarrow> Edge list" where
  "triangle_edges sid t tri = (case tri of (i0, i1, i2) \<Rightarrow>
     [Edge sid (min i0 i1) (max i0 i1) (int t) (- 1),
      Edge sid (min i1 i2) (max i1 i2) (int t) (- 1),
      Edge sid (min i2 i0) (max i2 i0) (int t) (- 1)])"

definition triangle_keys :: "Vector3i \<Rightarrow> (int \<times> int) list" where
  "triangle_keys tri = (case tri of (i0, i1, i2) \<Rightarrow>
     [(min i0 i1, max i0 i1), (min i1 i2, max i1 i2), (min i2 i0, max i2 i0)])"

definition run_of :: "Edge \<Rightarrow> Edge list \<Rightarrow> Edge list" where
  "run_of e xs = filter (\<lambda>x. edge_key x = edge_key e) xs"

definition nondegenerate :: "Vector3i \<Rightarrow> bool" where
  "nondegenerate tri = (case tri of (i0, i1, i2) \<Rightarrow> i0 \<noteq> i1 \<and> i1 \<noteq> i2 \<and> i2 \<noteq> i0)"

subsection \<open>Properties of the extraction\<close>

lemma edge_merger_key: "edge_key (edge_merger a b) = edge_key a"
  by (simp add: edge_merger_def edge_key_def)

lemma reduce_run_keys:
  "edge_key acc = edge_key k \<Longrightarrow>
   map edge_key (reduce_run edge_equal_comparer edge_merger k acc xs)
     = remdups_adj (edge_key k # map edge_key xs)"
  by (induction xs arbitrary: k acc)
     (auto simp: edge_equal_comparer_key edge_merger_key)

lemma merge_edges_keys: "map edge_key (merge_edges xs) = remdups_adj (map edge_key xs)"
  by (cases xs) (simp_all add: merge_edges_def reduce_run_keys)

lemma sorted_distinct_remdups_adj:
  fixes xs :: "'a::linorder list"
  shows "sorted xs \<Longrightarrow> distinct (remdups_adj xs)"
proof (induction xs rule: remdups_adj.induct)
  case (3 x y xs)
  then show ?case by (auto simp: )
qed simp_all

lemma comparer_le: "\<not> edge_less_comparer b a \<longleftrightarrow> edge_key a \<le> edge_key b"
  by (auto simp: edge_less_comparer_def edge_key_def less_eq_prod_def)

lemma sorted_keys: "sorted_wrt (\<lambda>a b. \<not> edge_less_comparer b a) xs \<longleftrightarrow> sorted (map edge_key xs)"
  by (simp add: sorted_wrt_map comparer_le)

lemma upt_3_Suc: "[0 ..< 3 * Suc n] = [0 ..< 3 * n] @ [3 * n, 3 * n + 1, 3 * n + 2]"
proof -
  have "3 * Suc n = Suc (Suc (Suc (3 * n)))" by simp
  then show ?thesis by (simp only: upt_Suc_append) simp
qed

lemma collect_edges_snoc:
  "collect_edges sid \<lparr>indices = ts @ [t]\<rparr>
     = collect_edges sid \<lparr>indices = ts\<rparr> @ triangle_edges sid (length ts) t"
proof -
  have a: "map (edge_collector sid \<lparr>indices = ts @ [t]\<rparr>) [0 ..< 3 * length ts]
         = map (edge_collector sid \<lparr>indices = ts\<rparr>) [0 ..< 3 * length ts]"
    by (rule map_cong) (auto simp: edge_collector_def get_indices_def nth_append)
  have d: "(3 * length ts + 1) div 3 = length ts" "(3 * length ts + 2) div 3 = length ts"
          "(3 * length ts + 1) mod 3 = 1" "(3 * length ts + 2) mod 3 = 2"
    by presburger+
  have b: "map (edge_collector sid \<lparr>indices = ts @ [t]\<rparr>)
             [3 * length ts, 3 * length ts + 1, 3 * length ts + 2]
         = triangle_edges sid (length ts) t"
    using d by (cases t) (simp add: edge_collector_def get_indices_def triangle_edges_def)
  have "[0 ..< 3 * length (ts @ [t])] = [0 ..< 3 * length ts] @ [3 * length ts, 3 * length ts + 1, 3 * length ts + 2]"
    using upt_3_Suc [of "length ts"] by simp
  then show ?thesis
    unfolding collect_edges_def num_triangles_def
    using a b by (simp only: Shape.simps map_append)
qed

lemma triangle_edges_keys: "map edge_key (triangle_edges sid t tri) = triangle_keys tri"
  by (cases tri) (simp add: triangle_edges_def triangle_keys_def edge_key_def)

lemma collect_edges_keys:
  "map edge_key (collect_edges sid \<lparr>indices = ts\<rparr>) = concat (map triangle_keys ts)"
proof (induction ts rule: rev_induct)
  case Nil
  show ?case by (simp add: collect_edges_def num_triangles_def)
next
  case (snoc t ts)
  then show ?case by (simp add: collect_edges_snoc triangle_edges_keys)
qed

lemma mset_concat_map: "mset (concat (map f ts)) = (\<Sum>t\<in>#mset ts. mset (f t))"
  by (induction ts) simp_all

lemma mset_concat_map_perm:
  "mset ts = mset ts' \<Longrightarrow> mset (concat (map f ts)) = mset (concat (map f ts'))"
  by (simp add: mset_concat_map)

lemma reduce_run_members:
  assumes "edge_key acc = edge_key k" "sorted (edge_key k # map edge_key xs)"
    and "e \<in> set (reduce_run edge_equal_comparer edge_merger k acc xs)"
  shows "(edge_key e = edge_key k \<and> e = foldl edge_merger acc (run_of k xs)) \<or>
         (edge_key e \<noteq> edge_key k \<and> run_of e xs \<noteq> [] \<and>
          e = foldl edge_merger (hd (run_of e xs)) (tl (run_of e xs)))"
  using assms
proof (induction xs arbitrary: k acc)
  case Nil
  then show ?case by (simp add: run_of_def)
next
  case (Cons x xs)
  show ?case
  proof (cases "edge_key x = edge_key k")
    case True
    then have "edge_equal_comparer k x"
      by (auto simp: edge_equal_comparer_def edge_key_def)
    with Cons.prems(3) have mem: "e \<in> set (reduce_run edge_equal_comparer edge_merger k (edge_merger acc x) xs)"
      by simp
    have srt: "sorted (edge_key k # map edge_key xs)"
      using Cons.prems(2) by simp
    have "edge_key (edge_merger acc x) = edge_key k"
      using Cons.prems(1) by (simp add: edge_merger_key)
    from Cons.IH [OF this srt mem] True show ?thesis
      by (auto simp: run_of_def)
  next
    case False
    then have "\<not> edge_equal_comparer k x"
      by (auto simp: edge_equal_comparer_def edge_key_def)
    with Cons.prems(3) have mem: "e = acc \<or> e \<in> set (reduce_run edge_equal_comparer edge_merger x x xs)"
      by simp
    have lt: "edge_key k < edge_key x"
      using Cons.prems(2) False by (simp add: order.strict_iff_order)
    have later: "\<forall>y\<in>set xs. edge_key k < edge_key y"
      using Cons.prems(2) lt by (auto simp: less_le_trans)
    have nok: "run_of k (x # xs) = []"
      using later False by (auto simp: run_of_def filter_empty_conv)
    from mem show ?thesis
    proof
      assume "e = acc"
      then show ?thesis using nok Cons.prems(1) by simp
    next
      assume m: "e \<in> set (reduce_run edge_equal_comparer edge_merger x x xs)"
      have srt: "sorted (edge_key x # map edge_key xs)"
        using Cons.prems(2) by simp
      have "edge_key e \<in> set (map edge_key (reduce_run edge_equal_comparer edge_merger x x xs))"
        using m by (metis image_eqI set_map)
      then have "edge_key e \<in> insert (edge_key x) (set (map edge_key xs))"
        by (simp only: reduce_run_keys [OF refl] remdups_adj_set) simp
      then have ne: "edge_key e \<noteq> edge_key k"
        using lt later by auto
      from Cons.IH [OF refl srt m] show ?thesis
      proof (elim disjE conjE)
        assume a: "edge_key e = edge_key x" "e = foldl edge_merger x (run_of x xs)"
        then have "run_of e (x # xs) = x # run_of x xs"
          by (simp add: run_of_def)
        then show ?thesis using a ne by simp
      next
        assume a: "edge_key e \<noteq> edge_key x" "run_of e xs \<noteq> []"
           "e = foldl edge_merger (hd (run_of e xs)) (tl (run_of e xs))"
        then have "run_of e (x # xs) = run_of e xs"
          by (simp add: run_of_def)
        then show ?thesis using a ne by simp
      qed
    qed
  qed
qed

lemma merge_edges_members:
  assumes "sorted (map edge_key xs)" "e \<in> set (merge_edges xs)"
  shows "run_of e xs \<noteq> [] \<and> e = foldl edge_merger (hd (run_of e xs)) (tl (run_of e xs))"
proof (cases xs)
  case Nil
  with assms show ?thesis by (simp add: merge_edges_def)
next
  case (Cons x ys)
  with assms have m: "e \<in> set (reduce_run edge_equal_comparer edge_merger x x ys)"
    and s: "sorted (edge_key x # map edge_key ys)"
    by (simp_all add: merge_edges_def)
  from reduce_run_members [OF refl s m] show ?thesis
  proof (elim disjE conjE)
    assume a: "edge_key e = edge_key x" "e = foldl edge_merger x (run_of x ys)"
    then have "run_of e xs = x # run_of x ys"
      by (simp add: run_of_def Cons)
    then show ?thesis using a by simp
  next
    assume a: "edge_key e \<noteq> edge_key x" "run_of e ys \<noteq> []"
       "e = foldl edge_merger (hd (run_of e ys)) (tl (run_of e ys))"
    then have "run_of e xs = run_of e ys"
      by (simp add: run_of_def Cons)
    then show ?thesis using a by simp
  qed
qed

lemma edge_collector_fields:
  "edge_shape_id (edge_collector sid shape idx) = sid"
  "edge_f0 (edge_collector sid shape idx) = int (idx div 3)"
  "edge_f1 (edge_collector sid shape idx) = - 1"
  "edge_v0 (edge_collector sid shape idx) \<le> edge_v1 (edge_collector sid shape idx)"
  "edge_key (edge_collector sid shape idx) = triangle_keys (get_indices shape (idx div 3)) ! (idx mod 3)"
  "nondegenerate (get_indices shape (idx div 3)) \<Longrightarrow>
     edge_v0 (edge_collector sid shape idx) < edge_v1 (edge_collector sid shape idx)"
proof -
  obtain i0 i1 i2 where t: "get_indices shape (idx div 3) = (i0, i1, i2)"
    by (cases "get_indices shape (idx div 3)")
  have m: "idx mod 3 = 0 \<or> idx mod 3 = 1 \<or> idx mod 3 = 2" by presburger
  show "edge_shape_id (edge_collector sid shape idx) = sid"
    "edge_f0 (edge_collector sid shape idx) = int (idx div 3)"
    "edge_f1 (edge_collector sid shape idx) = - 1"
    "edge_v0 (edge_collector sid shape idx) \<le> edge_v1 (edge_collector sid shape idx)"
    by (auto simp: edge_collector_def t)
  show "edge_key (edge_collector sid shape idx) = triangle_keys (get_indices shape (idx div 3)) ! (idx mod 3)"
    using m by (auto simp: edge_collector_def t triangle_keys_def edge_key_def)
  show "nondegenerate (get_indices shape (idx div 3)) \<Longrightarrow>
     edge_v0 (edge_collector sid shape idx) < edge_v1 (edge_collector sid shape idx)"
    by (auto simp: edge_collector_def t nondegenerate_def)
qed

lemma collect_edges_member:
  "e \<in> set (collect_edges sid shape) \<Longrightarrow>
     \<exists>idx < 3 * num_triangles shape. e = edge_collector sid shape idx"
  by (auto simp: collect_edges_def)

lemma run_of_perm:
  "mset xs = mset ys \<Longrightarrow> mset (run_of e xs) = mset (run_of e ys)"
  by (simp add: run_of_def mset_filter)

lemma insert_sorted_mset: "mset (insert_sorted lt x xs) = add_mset x (mset xs)"
  by (induction xs) simp_all

lemma insert_sorted_edges:
  "sorted (map edge_key xs) \<Longrightarrow>
   sorted (map edge_key (insert_sorted edge_less_comparer x xs))"
proof (induction xs)
  case Nil
  show ?case by simp
next
  case (Cons y ys)
  have set_ins: "set (insert_sorted edge_less_comparer x ys) = insert x (set ys)"
    by (metis insert_sorted_mset set_mset_add_mset_insert set_mset_mset)
  show ?case
  proof (cases "edge_less_comparer x y")
    case True
    then have "edge_key x \<le> edge_key y"
      by (auto simp: edge_less_comparer_def edge_key_def less_eq_prod_def split: if_splits)
    with Cons.prems True show ?thesis by auto
  next
    case False
    then have "edge_key y \<le> edge_key x" by (simp add: comparer_le)
    with Cons False set_ins show ?thesis by auto
  qed
qed

lemma thrust_sort_edges:
  "sort_result edge_less_comparer xs (thrust_sort edge_less_comparer xs)"
proof -
  have "mset (thrust_sort edge_less_comparer xs) = mset xs"
    by (induction xs) (simp_all add: thrust_sort_def insert_sorted_mset)
  moreover have "sorted (map edge_key (thrust_sort edge_less_comparer xs))"
    by (induction xs) (simp_all add: thrust_sort_def insert_sorted_edges)
  ultimately show ?thesis
    by (simp add: sort_result_def sorted_keys)
qed

lemma merge_edges_face_pair:
  assumes perm: "mset xs = mset cs" and srt: "sorted (map edge_key xs)"
    and mem: "e \<in> set (merge_edges xs)"
  shows "run_of e cs \<noteq> []"
    "length (run_of e cs) = 1 \<Longrightarrow> e = hd (run_of e cs)"
    "length (run_of e cs) = 2 \<Longrightarrow>
       {#edge_f0 e, edge_f1 e#} = mset (map edge_f0 (run_of e cs)) \<and>
       edge_shape_id e = edge_shape_id (hd (run_of e xs))"
proof -
  note m = merge_edges_members [OF srt mem]
  note p = run_of_perm [OF perm, of e]
  have len: "length (run_of e xs) = length (run_of e cs)"
    using p by (metis size_mset)
  show "run_of e cs \<noteq> []" using m len by auto
  {
    assume "length (run_of e cs) = 1"
    then obtain a b where "run_of e xs = [a]" "run_of e cs = [b]"
      using len by (auto simp: length_Suc_conv)
    then show "e = hd (run_of e cs)" using m p by simp
  }
  {
    assume "length (run_of e cs) = 2"
    then obtain a b where ab: "run_of e xs = [a, b]"
      using len by (auto simp: length_Suc_conv numeral_2_eq_2)
    then have "e = edge_merger a b" using m by simp
    moreover have "mset (run_of e cs) = {#a, b#}"
      using p ab by simp
    then have "image_mset edge_f0 (mset (run_of e cs)) = {#edge_f0 a, edge_f0 b#}"
      by simp
    then have "mset (map edge_f0 (run_of e cs)) = {#edge_f0 a, edge_f0 b#}"
      by simp
    ultimately show "{#edge_f0 e, edge_f1 e#} = mset (map edge_f0 (run_of e cs)) \<and>
       edge_shape_id e = edge_shape_id (hd (run_of e xs))"
      using ab by (simp add: edge_merger_def)
  }
qed

lemma collect_edges_keys_mset:
  assumes "mset (indices shape') = mset (indices shape)"
  shows "mset (map edge_key (collect_edges sid shape')) = mset (map edge_key (collect_edges sid shape))"
proof -
  have "map edge_key (collect_edges sid shape') = concat (map triangle_keys (indices shape'))"
    "map edge_key (collect_edges sid shape) = concat (map triangle_keys (indices shape))"
    using collect_edges_keys [of sid "indices shape'"] collect_edges_keys [of sid "indices shape"]
    by (cases shape', simp, cases shape, simp)
  then show ?thesis
    using mset_concat_map_perm [OF assms, of triangle_keys] by simp
qed

text \<open>
  Claim C4, as the code has it. For every shape and every result of the sort:
  each index \<open>idx\<close> of the collector yields the side \<open>idx mod 3\<close> of triangle
  \<open>idx div 3\<close>, with its two vertex indices in order (\<open>v0 \<le> v1\<close>, and \<open>v0 < v1\<close> when the
  triangle's indices differ), tagged with the triangle index and \<open>f1 = -1\<close>; the sorted
  range is ordered by \<open>(v0, v1)\<close>; the merged range has every vertex pair of the shape
  exactly once; an edge whose pair occurs once is the collected edge itself (\<open>f1 = -1\<close>),
  an edge whose pair occurs exactly twice carries the two triangle indices in \<open>f0\<close> and
  \<open>f1\<close>; and the merged vertex pairs are the same for every order in which the triangles
  are listed.
\<close>

theorem edge_extraction_merge:
  assumes "sort_result edge_less_comparer (collect_edges shape_id shape) sorted_edges"
  shows "(\<forall>idx < 3 * num_triangles shape.
            edge_shape_id (edge_collector shape_id shape idx) = shape_id \<and>
            edge_f0 (edge_collector shape_id shape idx) = int (idx div 3) \<and>
            edge_f1 (edge_collector shape_id shape idx) = - 1 \<and>
            edge_key (edge_collector shape_id shape idx)
              = triangle_keys (get_indices shape (idx div 3)) ! (idx mod 3) \<and>
            edge_v0 (edge_collector shape_id shape idx)
              \<le> edge_v1 (edge_collector shape_id shape idx) \<and>
            (nondegenerate (get_indices shape (idx div 3)) \<longrightarrow>
               edge_v0 (edge_collector shape_id shape idx)
                 < edge_v1 (edge_collector shape_id shape idx))) \<and>
         sorted (map edge_key sorted_edges) \<and>
         distinct (map edge_key (merge_edges sorted_edges)) \<and>
         set (map edge_key (merge_edges sorted_edges))
           = set (map edge_key (collect_edges shape_id shape)) \<and>
         (\<forall>e \<in> set (merge_edges sorted_edges).
            edge_shape_id e = shape_id \<and>
            (length (run_of e (collect_edges shape_id shape)) = 1 \<longrightarrow>
               e = hd (run_of e (collect_edges shape_id shape)) \<and> edge_f1 e = - 1) \<and>
            (length (run_of e (collect_edges shape_id shape)) = 2 \<longrightarrow>
               {#edge_f0 e, edge_f1 e#}
                 = mset (map edge_f0 (run_of e (collect_edges shape_id shape))))) \<and>
         (\<forall>shape' sorted_edges'.
            mset (indices shape') = mset (indices shape) \<longrightarrow>
            sort_result edge_less_comparer (collect_edges shape_id shape') sorted_edges' \<longrightarrow>
            map edge_key (merge_edges sorted_edges') = map edge_key (merge_edges sorted_edges))"
proof -
  let ?cs = "collect_edges shape_id shape"
  from assms have perm: "mset sorted_edges = mset ?cs"
    and srt: "sorted (map edge_key sorted_edges)"
    by (simp_all add: sort_result_def sorted_keys)
  have sets: "set sorted_edges = set ?cs"
    using perm by (metis set_mset_mset)
  have collected: "\<forall>idx < 3 * num_triangles shape.
            edge_shape_id (edge_collector shape_id shape idx) = shape_id \<and>
            edge_f0 (edge_collector shape_id shape idx) = int (idx div 3) \<and>
            edge_f1 (edge_collector shape_id shape idx) = - 1 \<and>
            edge_key (edge_collector shape_id shape idx)
              = triangle_keys (get_indices shape (idx div 3)) ! (idx mod 3) \<and>
            edge_v0 (edge_collector shape_id shape idx)
              \<le> edge_v1 (edge_collector shape_id shape idx) \<and>
            (nondegenerate (get_indices shape (idx div 3)) \<longrightarrow>
               edge_v0 (edge_collector shape_id shape idx)
                 < edge_v1 (edge_collector shape_id shape idx))"
    by (simp add: edge_collector_fields)
  have dist: "distinct (map edge_key (merge_edges sorted_edges))"
    using srt by (simp add: merge_edges_keys sorted_distinct_remdups_adj)
  have keys: "set (map edge_key (merge_edges sorted_edges)) = set (map edge_key ?cs)"
    using sets by (simp add: merge_edges_keys)
  have faces: "\<forall>e \<in> set (merge_edges sorted_edges).
            edge_shape_id e = shape_id \<and>
            (length (run_of e ?cs) = 1 \<longrightarrow> e = hd (run_of e ?cs) \<and> edge_f1 e = - 1) \<and>
            (length (run_of e ?cs) = 2 \<longrightarrow>
               {#edge_f0 e, edge_f1 e#} = mset (map edge_f0 (run_of e ?cs)))"
  proof
    fix e assume mem: "e \<in> set (merge_edges sorted_edges)"
    note fp = merge_edges_face_pair [OF perm srt mem]
    note mm = merge_edges_members [OF srt mem]
    have from_cs: "\<And>a. a \<in> set ?cs \<Longrightarrow> edge_shape_id a = shape_id \<and> edge_f1 a = - 1"
      using collect_edges_member edge_collector_fields(1,3) by blast
    have "hd (run_of e sorted_edges) \<in> set ?cs"
      using mm sets by (metis filter_is_subset hd_in_set run_of_def subsetD)
    then have "edge_shape_id (hd (run_of e sorted_edges)) = shape_id"
      using from_cs by blast
    moreover have "edge_shape_id (foldl edge_merger a xs) = edge_shape_id a" for a xs
      by (induction xs arbitrary: a) (simp_all add: edge_merger_def)
    ultimately have sid: "edge_shape_id e = shape_id"
      using mm by metis
    have one: "e = hd (run_of e ?cs) \<and> edge_f1 e = - 1" if l: "length (run_of e ?cs) = 1"
    proof -
      have "hd (run_of e ?cs) \<in> set ?cs"
        using fp(1) by (metis filter_is_subset hd_in_set run_of_def subsetD)
      then show ?thesis using fp(2) [OF l] from_cs by metis
    qed
    show "edge_shape_id e = shape_id \<and>
            (length (run_of e ?cs) = 1 \<longrightarrow> e = hd (run_of e ?cs) \<and> edge_f1 e = - 1) \<and>
            (length (run_of e ?cs) = 2 \<longrightarrow>
               {#edge_f0 e, edge_f1 e#} = mset (map edge_f0 (run_of e ?cs)))"
      using sid one fp(3) by blast
  qed
  have indep: "\<forall>shape' sorted_edges'.
            mset (indices shape') = mset (indices shape) \<longrightarrow>
            sort_result edge_less_comparer (collect_edges shape_id shape') sorted_edges' \<longrightarrow>
            map edge_key (merge_edges sorted_edges') = map edge_key (merge_edges sorted_edges)"
  proof (intro allI impI)
    fix shape' :: Shape and sorted_edges'
    assume tri: "mset (indices shape') = mset (indices shape)"
      and res: "sort_result edge_less_comparer (collect_edges shape_id shape') sorted_edges'"
    from res have perm': "mset sorted_edges' = mset (collect_edges shape_id shape')"
      and srt': "sorted (map edge_key sorted_edges')"
      by (simp_all add: sort_result_def sorted_keys)
    have "mset (map edge_key sorted_edges') = mset (map edge_key sorted_edges)"
      using perm perm' collect_edges_keys_mset [OF tri, of shape_id] by (metis mset_map)
    then have "map edge_key sorted_edges' = map edge_key sorted_edges"
      using srt srt' by (metis properties_for_sort)
    then show "map edge_key (merge_edges sorted_edges') = map edge_key (merge_edges sorted_edges)"
      by (simp add: merge_edges_keys)
  qed
  from collected srt dist keys faces indep show ?thesis by blast
qed

theorem edge_extraction_merge_witness:
  "sort_result edge_less_comparer
     (collect_edges 0 \<lparr>indices = [(0, 1, 2), (2, 1, 3)]\<rparr>)
     (thrust_sort edge_less_comparer (collect_edges 0 \<lparr>indices = [(0, 1, 2), (2, 1, 3)]\<rparr>)) \<and>
   distinct (map edge_key (extract_edges 0 \<lparr>indices = [(0, 1, 2), (2, 1, 3)]\<rparr>)) \<and>
   extract_edges 0 \<lparr>indices = [(0, 1, 2), (2, 1, 3)]\<rparr>
     = [Edge 0 0 1 0 (- 1), Edge 0 0 2 0 (- 1), Edge 0 1 2 1 0,
        Edge 0 1 3 1 (- 1), Edge 0 2 3 1 (- 1)]"
proof -
  let ?shape = "\<lparr>indices = [(0, 1, 2), (2, 1, 3)]\<rparr>"
  have h: "sort_result edge_less_comparer (collect_edges 0 ?shape)
             (thrust_sort edge_less_comparer (collect_edges 0 ?shape))"
    by (rule thrust_sort_edges)
  have d: "distinct (map edge_key (extract_edges 0 ?shape))"
    using edge_extraction_merge [OF h] by (simp add: extract_edges_def)
  have v: "extract_edges 0 ?shape
     = [Edge 0 0 1 0 (- 1), Edge 0 0 2 0 (- 1), Edge 0 1 2 1 0,
        Edge 0 1 3 1 (- 1), Edge 0 2 3 1 (- 1)]"
    by code_simp
  from h d v show ?thesis by blast
qed

text \<open>
  Counterexample to C4 as stated: the strict order \<open>v0 < v1\<close> fails on a triangle that
  repeats a vertex index. Side 0 of the triangle \<open>(1, 1, 2)\<close> is the edge with
  \<open>v0 = v1 = 1\<close>.
\<close>

theorem collected_edge_strict_counterexample:
  "\<not> edge_v0 (edge_collector 0 \<lparr>indices = [(1, 1, 2)]\<rparr> 0)
       < edge_v1 (edge_collector 0 \<lparr>indices = [(1, 1, 2)]\<rparr> 0)"
  by (simp add: edge_collector_def get_indices_def)

subsection \<open>The scene as the samplers see it\<close>

text \<open>
  \<^verbatim>\<open>camera.h\<close>, \<^verbatim>\<open>edge.h\<close>, \<^verbatim>\<open>shape.h\<close> and \<^verbatim>\<open>line_clip.h\<close> are not among the sources.
  What \<^verbatim>\<open>edge.cpp\<close> reads of a camera is kept as a record: the data fields it reads, and
  the camera functions it calls, each already applied to the camera. A function that
  returns \<^verbatim>\<open>bool\<close> and fills output parameters on success returns an option.
  \<open>cam_origin\<close> is \<^verbatim>\<open>xfm_point(camera.cam_to_world, Vector3{0, 0, 0})\<close> and \<open>to_camera\<close> is
  \<^verbatim>\<open>xfm_point(camera.world_to_cam, _)\<close>.
\<close>

text \<open>
  Of a ray \<^verbatim>\<open>edge.cpp\<close> reads the origin and the direction; the two-argument constructor
  \<^verbatim>\<open>Ray(org, dir)\<close> leaves the remaining members at the defaults of \<^verbatim>\<open>ray.h\<close>, which are
  not modelled.
\<close>

datatype Ray = Ray (ray_org: Vector3) (ray_dir: Vector3)

record Camera =
  fisheye :: bool
  width :: int
  height :: int
  cam_origin :: Vector3
  to_camera :: "Vector3 \<Rightarrow> Vector3"
  project :: "Vector3 \<Rightarrow> Vector3 \<Rightarrow> (Vector2 \<times> Vector2) option"
  in_screen :: "Vector2 \<Rightarrow> bool"
  sample_primary :: "Vector2 \<Rightarrow> Ray"
  screen_to_camera :: "Vector2 \<Rightarrow> Vector3"
  camera_to_screen :: "Vector3 \<Rightarrow> Vector2"
  d_screen_to_camera :: "Vector2 \<Rightarrow> Vector3 \<times> Vector3"

text \<open>
  Likewise for the shape array: the edge functions of \<^verbatim>\<open>edge.h\<close>, applied to
  \<^verbatim>\<open>shapes\<close>.
\<close>

record Shapes =
  get_v0 :: "Edge \<Rightarrow> Vector3"
  get_v1 :: "Edge \<Rightarrow> Vector3"
  is_silhouette :: "Vector3 \<Rightarrow> Edge \<Rightarrow> bool"
  compute_exterior_dihedral_angle :: "Edge \<Rightarrow> real"

subsection \<open>Edge weights and the distribution builder\<close>

text \<open>
  \<^verbatim>\<open>primary_edge_weighter::operator()(idx)\<close>: the value stored in
  \<^verbatim>\<open>primary_edge_weights[idx]\<close> for the edge \<^verbatim>\<open>edges[idx]\<close>. \<open>clip_line\<close> is the function of
  \<^verbatim>\<open>line_clip.h\<close>.
\<close>

definition primary_edge_weighter ::
  "Camera \<Rightarrow> Shapes \<Rightarrow> (Vector2 \<Rightarrow> Vector2 \<Rightarrow> (Vector2 \<times> Vector2) option) \<Rightarrow> Edge \<Rightarrow> real" where
  "primary_edge_weighter camera shapes clip_line edge =
     (case project camera (get_v0 shapes edge) (get_v1 shapes edge) of
        None \<Rightarrow> 0
      | Some (v0p, v1p) \<Rightarrow>
          (case clip_line v0p v1p of
             None \<Rightarrow> 0
           | Some (v0c, v1c) \<Rightarrow>
               if is_silhouette shapes (cam_origin camera) edge then distance2 v0c v1c else 0))"

text \<open>
  \<^verbatim>\<open>secondary_edge_weighter::operator()(idx)\<close>: the value stored in
  \<^verbatim>\<open>secondary_edge_weights[idx]\<close>.
\<close>

definition secondary_edge_weighter :: "Shapes \<Rightarrow> Edge \<Rightarrow> real" where
  "secondary_edge_weighter shapes edge =
     (let exterior_dihedral = compute_exterior_dihedral_angle shapes edge;
          v0 = get_v0 shapes edge;
          v1 = get_v1 shapes edge
      in distance3 v0 v1 * exterior_dihedral)"

text \<open>
  The three \<^verbatim>\<open>thrust\<close> passes of the constructor: \<^verbatim>\<open>reduce\<close> with \<^verbatim>\<open>plus\<close> from \<open>0\<close>,
  \<^verbatim>\<open>transform\<close> with \<^verbatim>\<open>divides\<close> against the constant total, and
  \<^verbatim>\<open>transform_exclusive_scan\<close> with the identity, \<open>0\<close> and \<^verbatim>\<open>plus\<close>.
\<close>

definition thrust_reduce :: "real list \<Rightarrow> real \<Rightarrow> real" where
  "thrust_reduce xs init = foldl (+) init xs"

definition thrust_divides :: "real list \<Rightarrow> real \<Rightarrow> real list" where
  "thrust_divides xs c = map (\<lambda>x. x / c) xs"

fun exclusive_scan :: "real \<Rightarrow> real list \<Rightarrow> real list" where
  "exclusive_scan acc [] = []"
| "exclusive_scan acc (x # xs) = acc # exclusive_scan (acc + x) xs"

definition build_distribution :: "real list \<Rightarrow> real list \<times> real list" where
  "build_distribution weights =
     (let total_length = thrust_reduce weights 0;
          pmf = thrust_divides weights total_length;
          cdf = exclusive_scan 0 pmf
      in (pmf, cdf))"

definition primary_edge_weights ::
  "Camera \<Rightarrow> Shapes \<Rightarrow> (Vector2 \<Rightarrow> Vector2 \<Rightarrow> (Vector2 \<times> Vector2) option) \<Rightarrow> Edge list \<Rightarrow> real list" where
  "primary_edge_weights camera shapes clip_line edges =
     map (primary_edge_weighter camera shapes clip_line) edges"

definition primary_distribution ::
  "Camera \<Rightarrow> Shapes \<Rightarrow> (Vector2 \<Rightarrow> Vector2 \<Rightarrow> (Vector2 \<times> Vector2) option) \<Rightarrow> Edge list
     \<Rightarrow> real list \<times> real list" where
  "primary_distribution camera shapes clip_line edges =
     build_distribution (primary_edge_weights camera shapes clip_line edges)"

text \<open>
  What the data model asks of a PMF/CDF pair: the pmf is non-negative and sums to one,
  the cdf is its exclusive prefix sum, starts at zero and never decreases.
\<close>

definition pmf_cdf_pair :: "real list \<times> real list \<Rightarrow> bool" where
  "pmf_cdf_pair d =
     ((\<forall>p \<in> set (fst d). 0 \<le> p) \<and>
      sum_list (fst d) = 1 \<and>
      length (snd d) = length (fst d) \<and>
      (\<forall>i < length (fst d). snd d ! i = sum_list (take i (fst d))) \<and>
      snd d ! 0 = 0 \<and>
      (\<forall>i. Suc i < length (snd d) \<longrightarrow> snd d ! i \<le> snd d ! Suc i))"

lemma thrust_reduce_sum: "thrust_reduce xs init = init + sum_list xs"
  unfolding thrust_reduce_def
  by (induction xs arbitrary: init) (simp_all add: algebra_simps)

lemma sum_list_divides: "sum_list (thrust_divides xs c) = sum_list xs / c"
  unfolding thrust_divides_def
  by (induction xs) (simp_all add: add_divide_distrib)

lemma exclusive_scan_length [simp]: "length (exclusive_scan acc xs) = length xs"
  by (induction xs arbitrary: acc) simp_all

lemma exclusive_scan_nth:
  "i < length xs \<Longrightarrow> exclusive_scan acc xs ! i = acc + sum_list (take i xs)"
proof (induction xs arbitrary: acc i)
  case Nil
  then show ?case by simp
next
  case (Cons x xs)
  then show ?case by (cases i) simp_all
qed

lemma sum_list_take_Suc:
  "i < length xs \<Longrightarrow> sum_list (take (Suc i) xs) = sum_list (take i xs) + (xs ! i :: real)"
  by (simp add: take_Suc_conv_app_nth)

lemma primary_edge_weighter_nonneg: "0 \<le> primary_edge_weighter camera shapes clip_line edge"
  by (simp add: primary_edge_weighter_def distance2_def split: option.split prod.split)

lemma build_distribution_props:
  assumes nonneg: "\<forall>w \<in> set weights. 0 \<le> w" and pos: "0 < thrust_reduce weights 0"
  shows "pmf_cdf_pair (build_distribution weights)"
proof -
  let ?total = "thrust_reduce weights 0"
  let ?pmf = "thrust_divides weights ?total"
  let ?cdf = "exclusive_scan 0 ?pmf"
  have bd: "build_distribution weights = (?pmf, ?cdf)"
    by (simp add: build_distribution_def Let_def)
  have tot: "?total = sum_list weights"
    by (simp add: thrust_reduce_sum)
  have len: "length ?pmf = length weights"
    by (simp add: thrust_divides_def)
  have ne: "weights \<noteq> []"
    using pos tot by auto
  have p0: "\<forall>p \<in> set ?pmf. 0 \<le> p"
    using nonneg pos by (auto simp: thrust_divides_def)
  have p1: "sum_list ?pmf = 1"
    using pos tot by (simp add: sum_list_divides)
  have c: "\<forall>i < length weights. ?cdf ! i = sum_list (take i ?pmf)"
    using len by (simp add: exclusive_scan_nth)
  have c0: "?cdf ! 0 = 0"
    using c ne by simp
  have mono: "\<forall>i. Suc i < length weights \<longrightarrow> ?cdf ! i \<le> ?cdf ! Suc i"
  proof (intro allI impI)
    fix i assume i: "Suc i < length weights"
    then have "?cdf ! Suc i = ?cdf ! i + ?pmf ! i"
      using c len by (simp add: sum_list_take_Suc del: take_Suc)
    moreover have "0 \<le> ?pmf ! i"
      using p0 i len by (metis Suc_lessD nth_mem)
    ultimately show "?cdf ! i \<le> ?cdf ! Suc i" by simp
  qed
  from p0 p1 len c c0 mono show ?thesis
    unfolding bd pmf_cdf_pair_def by simp
qed

text \<open>A scene with one camera that projects every edge onto the same unit segment.\<close>

definition flat_camera :: Camera where
  "flat_camera =
     \<lparr>fisheye = False, width = 4, height = 4, cam_origin = Vector3 0 0 0,
      to_camera = (\<lambda>v. v),
      project = (\<lambda>a b. Some (Vector2 0 0, Vector2 1 0)),
      in_screen = (\<lambda>p. True),
      sample_primary = (\<lambda>p. Ray (Vector3 0 0 0) (Vector3 (x2 p) (y2 p) 1)),
      screen_to_camera = (\<lambda>p. Vector3 (x2 p) (y2 p) 1),
      camera_to_screen = (\<lambda>v. Vector2 (x3 v) (y3 v)),
      d_screen_to_camera = (\<lambda>p. (Vector3 1 0 0, Vector3 0 1 0))\<rparr>"

definition flat_shapes :: Shapes where
  "flat_shapes =
     \<lparr>get_v0 = (\<lambda>e. Vector3 0 0 1), get_v1 = (\<lambda>e. Vector3 1 0 1),
      is_silhouette = (\<lambda>p e. True),
      compute_exterior_dihedral_angle = (\<lambda>e. 0)\<rparr>"

definition no_clip :: "Vector2 \<Rightarrow> Vector2 \<Rightarrow> (Vector2 \<times> Vector2) option" where
  "no_clip a b = Some (a, b)"

text \<open>
  Claim C5. Whenever the total weight is strictly positive, the builder returns a pmf
  that is non-negative and sums to one and a cdf that is the exclusive prefix sum of
  the pmf, so \<open>cdf[0] = 0\<close> and \<open>cdf[i] \<le> cdf[i+1]\<close>. This holds of the builder on any
  non-negative weights, and of the primary distribution as the constructor builds it,
  where the weights are screen-space lengths or zero.
\<close>

theorem distribution_pmf_cdf:
  "((\<forall>w \<in> set weights. 0 \<le> w) \<and> 0 < thrust_reduce weights 0
      \<longrightarrow> pmf_cdf_pair (build_distribution weights)) \<and>
   (0 < thrust_reduce (primary_edge_weights camera shapes clip_line edges) 0
      \<longrightarrow> pmf_cdf_pair (primary_distribution camera shapes clip_line edges))"
proof -
  have general: "pmf_cdf_pair (build_distribution ws)"
    if "\<forall>w \<in> set ws. 0 \<le> w" "0 < thrust_reduce ws 0" for ws
    using build_distribution_props [OF that] .
  have "\<forall>w \<in> set (primary_edge_weights camera shapes clip_line edges). 0 \<le> w"
    by (auto simp: primary_edge_weights_def primary_edge_weighter_nonneg)
  then show ?thesis
    using general unfolding primary_distribution_def by blast
qed

lemma flat_weights:
  "primary_edge_weights flat_camera flat_shapes no_clip [Edge 0 0 1 0 (- 1), Edge 0 1 2 0 1] = [1, 1]"
  by (simp add: primary_edge_weights_def primary_edge_weighter_def flat_camera_def
        flat_shapes_def no_clip_def distance2_def)

theorem distribution_pmf_cdf_witness:
  "0 < thrust_reduce (primary_edge_weights flat_camera flat_shapes no_clip
                        [Edge 0 0 1 0 (- 1), Edge 0 1 2 0 1]) 0 \<and>
   primary_distribution flat_camera flat_shapes no_clip [Edge 0 0 1 0 (- 1), Edge 0 1 2 0 1]
     = ([1 / 2, 1 / 2], [0, 1 / 2]) \<and>
   pmf_cdf_pair (primary_distribution flat_camera flat_shapes no_clip
                   [Edge 0 0 1 0 (- 1), Edge 0 1 2 0 1]) \<and>
   0 < thrust_reduce [1, 3] 0 \<and>
   pmf_cdf_pair (build_distribution [1, 3])"
proof -
  let ?es = "[Edge 0 0 1 0 (- 1), Edge 0 1 2 0 1]"
  have h: "0 < thrust_reduce (primary_edge_weights flat_camera flat_shapes no_clip ?es) 0"
    by (simp add: flat_weights thrust_reduce_def)
  have v: "primary_distribution flat_camera flat_shapes no_clip ?es = ([1 / 2, 1 / 2], [0, 1 / 2])"
    by (simp add: primary_distribution_def flat_weights build_distribution_def
          thrust_reduce_def thrust_divides_def)
  have g: "(\<forall>w \<in> set [1, 3 :: real]. 0 \<le> w) \<and> 0 < thrust_reduce [1, 3] 0"
    by (simp add: thrust_reduce_def)
  from distribution_pmf_cdf [of "[1, 3]" flat_camera flat_shapes no_clip ?es] h v g
  show ?thesis by (simp add: thrust_reduce_def)
qed

text \<open>
  Claim C7, as the code has it: the secondary weight of an edge is its length times the
  exterior dihedral angle that \<^verbatim>\<open>compute_exterior_dihedral_angle\<close> returns (the source's
  comment reads this angle as pi minus the dihedral angle), so an edge whose exterior
  dihedral angle is zero has weight zero.
\<close>

theorem secondary_edge_weight_value:
  "secondary_edge_weighter shapes edge
     = distance3 (get_v0 shapes edge) (get_v1 shapes edge)
         * compute_exterior_dihedral_angle shapes edge"
  unfolding secondary_edge_weighter_def Let_def by (rule refl)

text \<open>
  Counterexample to C7 as stated: the weight is not the length times pi minus that
  angle. For a unit edge with exterior dihedral angle zero the weighter stores \<open>0\<close>, not
  \<open>pi\<close>.
\<close>

theorem secondary_edge_weight_counterexample:
  "secondary_edge_weighter flat_shapes (Edge 0 0 1 0 1)
     \<noteq> distance3 (get_v0 flat_shapes (Edge 0 0 1 0 1)) (get_v1 flat_shapes (Edge 0 0 1 0 1))
         * (pi - compute_exterior_dihedral_angle flat_shapes (Edge 0 0 1 0 1))"
proof -
  have "distance3 (Vector3 0 0 1) (Vector3 1 0 1) = 1"
    by (simp add: distance3_def distance_squared3_def length_squared3_def dot3_def
          minus_Vector3_def)
  then show ?thesis
    by (simp add: secondary_edge_weighter_def flat_shapes_def)
qed

subsection \<open>Records of the samplers and the weight updates\<close>

text \<open>
  The structs of \<^verbatim>\<open>edge.h\<close>, \<^verbatim>\<open>intersection.h\<close> and \<^verbatim>\<open>channels.h\<close>, with the fields that
  \<^verbatim>\<open>edge.cpp\<close> reads or writes. A nullable pointer is an option.
\<close>

datatype Frame = Frame (frame_x: Vector3) (frame_y: Vector3) (frame_n: Vector3)

record SurfacePoint =
  position :: Vector3
  geom_normal :: Vector3
  shading_frame :: Frame
  dn_dx :: Vector3
  dn_dy :: Vector3

datatype Intersection = Intersection (isect_shape_id: int) (isect_tri_id: int)

datatype ChannelInfo = ChannelInfo (num_total_dimensions: int) (radiance_dimension: int)

datatype PrimaryEdgeRecord = PrimaryEdgeRecord (primary_edge: Edge) (primary_edge_pt: Vector2)

datatype SecondaryEdgeRecord =
  SecondaryEdgeRecord (secondary_edge: Edge) (secondary_edge_pt: Vector3) (mwt: Vector3)

datatype EnvironmentMap = EnvironmentMap

record FlattenScene =
  scene_shapes :: Shapes
  envmap :: "EnvironmentMap option"

subsection \<open>The weight update after the probe rays are traced\<close>

text \<open>
  \<^verbatim>\<open>primary_edge_weights_updater::operator()(idx)\<close>, on the two buffers it writes. The
  source keeps this functor but no longer runs it.
\<close>

definition primary_edge_weights_updater ::
  "(int \<Rightarrow> PrimaryEdgeRecord) \<Rightarrow> (int \<Rightarrow> Intersection) \<Rightarrow> ChannelInfo \<Rightarrow> int
     \<Rightarrow> (int \<Rightarrow> Vector3) \<times> (int \<Rightarrow> real) \<Rightarrow> (int \<Rightarrow> Vector3) \<times> (int \<Rightarrow> real)" where
  "primary_edge_weights_updater edge_records shading_isects channel_info idx bufs =
     (case bufs of (throughputs, channel_multipliers) \<Rightarrow>
      let edge_record = edge_records idx;
          isect_upper = shading_isects (2 * idx + 0);
          isect_lower = shading_isects (2 * idx + 1);
          upper_connected =
            (isect_shape_id isect_upper = edge_shape_id (primary_edge edge_record) \<and>
             (isect_tri_id isect_upper = edge_f0 (primary_edge edge_record) \<or>
              isect_tri_id isect_upper = edge_f1 (primary_edge edge_record)));
          lower_connected =
            (isect_shape_id isect_lower = edge_shape_id (primary_edge edge_record) \<and>
             (isect_tri_id isect_lower = edge_f0 (primary_edge edge_record) \<or>
              isect_tri_id isect_lower = edge_f1 (primary_edge edge_record)))
      in if \<not> upper_connected \<and> \<not> lower_connected then
           (let nd = num_total_dimensions channel_info
            in (throughputs(2 * idx + 0 := Vector3 0 0 0, 2 * idx + 1 := Vector3 0 0 0),
                fold (\<lambda>d cm. cm(2 * nd * idx + d := 0, 2 * nd * idx + d + nd := 0))
                     (map int [0 ..< nat nd]) channel_multipliers))
         else (throughputs, channel_multipliers))"

text \<open>
  \<^verbatim>\<open>update_primary_edge_weights\<close>: the call of the functor is commented out, so the body
  is empty and both buffers are handed back as they came.
\<close>

definition update_primary_edge_weights ::
  "(int \<Rightarrow> PrimaryEdgeRecord) \<Rightarrow> nat \<Rightarrow> (int \<Rightarrow> Intersection) \<Rightarrow> ChannelInfo
     \<Rightarrow> (int \<Rightarrow> Vector3) \<times> (int \<Rightarrow> real) \<Rightarrow> (int \<Rightarrow> Vector3) \<times> (int \<Rightarrow> real)" where
  "update_primary_edge_weights edge_records num_records edge_isects channel_info bufs = bufs"

text \<open>\<^verbatim>\<open>intersect_jacobian\<close>, lines 1370 to 1394.\<close>

definition intersect_jacobian ::
  "Vector3 \<Rightarrow> Vector3 \<Rightarrow> Vector3 \<Rightarrow> Vector3 \<Rightarrow> Vector3 \<Rightarrow> Vector3" where
  "intersect_jacobian org dir p n l =
     (let dir_dot_n = dot3 dir n
      in if \<bar>dir_dot_n\<bar> < 1 / 10 ^ 10 then Vector3 0 0 0
         else
           let d = - dot3 p n;
               t = - (dot3 org n + d) / dir_dot_n
           in if t \<le> 0 then Vector3 0 0 0
              else scale3 t (l - scale3 (dot3 l n / dot3 dir n) dir))"

text \<open>
  \<^verbatim>\<open>secondary_edge_weights_updater::update_throughput\<close>: the new value of the slot that
  \<^verbatim>\<open>edge_throughput\<close> refers to. \<open>valid\<close> is \<^verbatim>\<open>Intersection::valid()\<close>, which
  \<^verbatim>\<open>intersection.h\<close> defines.
\<close>

definition update_throughput ::
  "(Intersection \<Rightarrow> bool) \<Rightarrow> FlattenScene \<Rightarrow> Intersection \<Rightarrow> SurfacePoint \<Rightarrow> SurfacePoint
     \<Rightarrow> SecondaryEdgeRecord \<Rightarrow> Vector3 \<Rightarrow> Vector3" where
  "update_throughput valid scene edge_isect edge_surface_point shading_point edge_record
     edge_throughput =
     (if valid edge_isect then
        (let dir = position edge_surface_point - position shading_point;
             dist_sq = length_squared3 dir
         in if dist_sq < 1 / 10 ^ 8 then Vector3 0 0 0
            else
              let n_dir = divide3 dir (sqrt dist_sq);
                  geometry_term = \<bar>dot3 (geom_normal edge_surface_point) n_dir\<bar> / dist_sq;
                  isect_jacobian =
                    intersect_jacobian (position shading_point) (secondary_edge_pt edge_record)
                      (position edge_surface_point) (geom_normal edge_surface_point)
                      (mwt edge_record);
                  v0 = get_v0 (scene_shapes scene) (secondary_edge edge_record);
                  v1 = get_v1 (scene_shapes scene) (secondary_edge edge_record);
                  half_plane_normal =
                    normalize3 (cross3 (v0 - position shading_point) (v1 - position shading_point));
                  line_jacobian =
                    length3 isect_jacobian
                      / length3 (cross3 (geom_normal edge_surface_point) half_plane_normal);
                  p = position shading_point;
                  d0 = v0 - p;
                  d1 = v1 - p;
                  dirac_jacobian = length3 (cross3 d0 d1);
                  w = line_jacobian / dirac_jacobian
              in scale3 (geometry_term * w) edge_throughput)
      else if envmap scene \<noteq> None then
        (let p = position shading_point;
             v0 = get_v0 (scene_shapes scene) (secondary_edge edge_record);
             v1 = get_v1 (scene_shapes scene) (secondary_edge edge_record);
             d0 = v0 - p;
             d1 = v1 - p;
             dirac_jacobian = length3 (cross3 d0 d1);
             line_jacobian = 1 / length_squared3 (secondary_edge_pt edge_record - p);
             w = line_jacobian / dirac_jacobian
         in scale3 w edge_throughput)
      else edge_throughput)"

text \<open>
  The functor's data members that it only reads, its \<^verbatim>\<open>operator()(idx)\<close> on the buffer
  \<^verbatim>\<open>edge_throughputs\<close>, and \<^verbatim>\<open>update_secondary_edge_weights\<close>, whose \<^verbatim>\<open>parallel_for\<close> runs
  the functor on \<open>idx = 0, ..., active_pixels.size() - 1\<close>; every index writes its own two
  slots only, so the indices are taken in order.
\<close>

record secondary_edge_weights_updater =
  su_scene :: FlattenScene
  su_active_pixels :: "int \<Rightarrow> int"
  su_shading_points :: "int \<Rightarrow> SurfacePoint"
  su_edge_isects :: "int \<Rightarrow> Intersection"
  su_edge_surface_points :: "int \<Rightarrow> SurfacePoint"
  su_edge_records :: "int \<Rightarrow> SecondaryEdgeRecord"

definition secondary_edge_weights_update ::
  "(Intersection \<Rightarrow> bool) \<Rightarrow> secondary_edge_weights_updater \<Rightarrow> int
     \<Rightarrow> (int \<Rightarrow> Vector3) \<Rightarrow> (int \<Rightarrow> Vector3)" where
  "secondary_edge_weights_update valid u idx edge_throughputs =
     (let pixel_id = su_active_pixels u idx;
          shading_point = su_shading_points u pixel_id;
          edge_isect0 = su_edge_isects u (2 * idx + 0);
          edge_surface_point0 = su_edge_surface_points u (2 * idx + 0);
          edge_isect1 = su_edge_isects u (2 * idx + 1);
          edge_surface_point1 = su_edge_surface_points u (2 * idx + 1);
          edge_record = su_edge_records u idx
      in if edge_shape_id (secondary_edge edge_record) < 0 then edge_throughputs
         else
           let t0 = edge_throughputs(2 * idx + 0 :=
                      update_throughput valid (su_scene u) edge_isect0 edge_surface_point0
                        shading_point edge_record (edge_throughputs (2 * idx + 0)))
           in t0(2 * idx + 1 :=
                   update_throughput valid (su_scene u) edge_isect1 edge_surface_point1
                     shading_point edge_record (t0 (2 * idx + 1))))"

definition update_secondary_edge_weights ::
  "(Intersection \<Rightarrow> bool) \<Rightarrow> secondary_edge_weights_updater \<Rightarrow> nat
     \<Rightarrow> (int \<Rightarrow> Vector3) \<Rightarrow> (int \<Rightarrow> Vector3)" where
  "update_secondary_edge_weights valid u num_active_pixels edge_throughputs =
     fold (secondary_edge_weights_update valid u) (map int [0 ..< num_active_pixels])
       edge_throughputs"

lemma update_throughput_miss:
  "\<not> valid edge_isect \<Longrightarrow> envmap scene = None \<Longrightarrow>
   update_throughput valid scene edge_isect edge_surface_point shading_point edge_record t = t"
  by (simp add: update_throughput_def)

lemma secondary_edge_weights_update_miss:
  assumes "\<not> valid (su_edge_isects u j)" "envmap (su_scene u) = None"
  shows "secondary_edge_weights_update valid u idx buf j = buf j"
proof (cases "edge_shape_id (secondary_edge (su_edge_records u idx)) < 0")
  case True
  then show ?thesis by (simp add: secondary_edge_weights_update_def)
next
  case False
  consider "j = 2 * idx" | "j = 2 * idx + 1" | "j \<noteq> 2 * idx" "j \<noteq> 2 * idx + 1"
    by blast
  then show ?thesis
  proof cases
    case 1
    with assms False show ?thesis
      by (simp add: secondary_edge_weights_update_def Let_def update_throughput_miss)
  next
    case 2
    with assms False show ?thesis
      by (simp add: secondary_edge_weights_update_def Let_def update_throughput_miss)
  next
    case 3
    with False show ?thesis
      by (simp add: secondary_edge_weights_update_def Let_def)
  qed
qed

lemma fold_updates_miss:
  assumes "\<not> valid (su_edge_isects u j)" "envmap (su_scene u) = None"
  shows "fold (secondary_edge_weights_update valid u) idxs buf j = buf j"
  using assms
  by (induction idxs arbitrary: buf) (simp_all add: secondary_edge_weights_update_miss)

lemma primary_edge_weights_updater_unconnected:
  assumes "isect_shape_id (shading_isects (2 * idx + 0)) \<noteq> edge_shape_id (primary_edge (edge_records idx))"
    and "isect_shape_id (shading_isects (2 * idx + 1)) \<noteq> edge_shape_id (primary_edge (edge_records idx))"
  shows "fst (primary_edge_weights_updater edge_records shading_isects channel_info idx
                (throughputs, channel_multipliers)) (2 * idx + 0) = Vector3 0 0 0"
  using assms by (simp add: primary_edge_weights_updater_def Let_def)

text \<open>
  Claim C9. \<^verbatim>\<open>update_primary_edge_weights\<close> returns the throughputs and the channel
  multipliers exactly as it received them, whatever the edge records and the
  intersections are.
\<close>

theorem update_primary_edge_weights_unchanged:
  "update_primary_edge_weights edge_records num_records edge_isects channel_info
     (throughputs, channel_multipliers) = (throughputs, channel_multipliers)"
  unfolding update_primary_edge_weights_def by (rule refl)

text \<open>
  Claim C10. In a scene without an environment map, a slot of \<^verbatim>\<open>edge_throughputs\<close> whose
  probe ray has no valid intersection holds after \<^verbatim>\<open>update_secondary_edge_weights\<close> the
  vector it held before: \<^verbatim>\<open>update_throughput\<close> hands the throughput back, the functor
  of the slot's own index stores that same vector, and no other index writes the slot.
  Hence a slot that did change had a surface hit, or the scene has an environment map.
\<close>

theorem update_secondary_edge_weights_miss:
  "(\<not> valid edge_isect \<and> envmap scene = None \<longrightarrow>
      update_throughput valid scene edge_isect edge_surface_point shading_point edge_record t = t) \<and>
   (\<not> valid (su_edge_isects u j) \<and> envmap (su_scene u) = None \<longrightarrow>
      update_secondary_edge_weights valid u num_active_pixels edge_throughputs j
        = edge_throughputs j) \<and>
   (update_secondary_edge_weights valid u num_active_pixels edge_throughputs j
        \<noteq> edge_throughputs j \<longrightarrow>
      valid (su_edge_isects u j) \<or> envmap (su_scene u) \<noteq> None)"
proof -
  have one: "\<not> valid edge_isect \<and> envmap scene = None \<longrightarrow>
      update_throughput valid scene edge_isect edge_surface_point shading_point edge_record t = t"
    by (simp add: update_throughput_miss)
  have pass: "\<not> valid (su_edge_isects u j) \<and> envmap (su_scene u) = None \<longrightarrow>
      update_secondary_edge_weights valid u num_active_pixels edge_throughputs j
        = edge_throughputs j"
    unfolding update_secondary_edge_weights_def by (simp add: fold_updates_miss)
  from one pass show ?thesis by auto
qed

text \<open>
  A pass over two samples in a scene without environment map: sample 0 hit a surface
  with its upper ray only, sample 1 with neither ray.
\<close>

definition hit_valid :: "Intersection \<Rightarrow> bool" where
  "hit_valid isect = (0 \<le> isect_shape_id isect \<and> 0 \<le> isect_tri_id isect)"

definition miss_pass :: secondary_edge_weights_updater where
  "miss_pass =
     \<lparr>su_scene = \<lparr>scene_shapes = flat_shapes, envmap = None\<rparr>,
      su_active_pixels = (\<lambda>i. i),
      su_shading_points = (\<lambda>i. \<lparr>position = Vector3 0 0 0, geom_normal = Vector3 0 0 1,
         shading_frame = Frame (Vector3 1 0 0) (Vector3 0 1 0) (Vector3 0 0 1),
         dn_dx = Vector3 0 0 0, dn_dy = Vector3 0 0 0\<rparr>),
      su_edge_isects = (\<lambda>i. if i = 0 then Intersection 0 0 else Intersection (- 1) (- 1)),
      su_edge_surface_points = (\<lambda>i. \<lparr>position = Vector3 0 0 0, geom_normal = Vector3 0 0 1,
         shading_frame = Frame (Vector3 1 0 0) (Vector3 0 1 0) (Vector3 0 0 1),
         dn_dx = Vector3 0 0 0, dn_dy = Vector3 0 0 0\<rparr>),
      su_edge_records = (\<lambda>i. SecondaryEdgeRecord (Edge 0 0 1 0 1) (Vector3 0 0 1) (Vector3 1 0 0))\<rparr>"

theorem update_secondary_edge_weights_miss_witness:
  "\<not> hit_valid (su_edge_isects miss_pass 3) \<and> envmap (su_scene miss_pass) = None \<and>
   update_secondary_edge_weights hit_valid miss_pass 2 (\<lambda>i. Vector3 1 2 3) 3 = Vector3 1 2 3 \<and>
   update_secondary_edge_weights hit_valid miss_pass 2 (\<lambda>i. Vector3 1 2 3) 0 = Vector3 0 0 0 \<and>
   hit_valid (su_edge_isects miss_pass 0)"
proof -
  have h: "\<not> hit_valid (su_edge_isects miss_pass 3) \<and> envmap (su_scene miss_pass) = None"
    by (simp add: hit_valid_def miss_pass_def)
  have a: "update_secondary_edge_weights hit_valid miss_pass 2 (\<lambda>i. Vector3 1 2 3) 3 = Vector3 1 2 3"
    using update_secondary_edge_weights_miss
      [of hit_valid "Intersection (- 1) (- 1)" "su_scene miss_pass" _ _ _ _ miss_pass 3 2 "\<lambda>i. Vector3 1 2 3"] h
    by blast
  have z: "update_throughput hit_valid (su_scene miss_pass) (Intersection 0 0)
             (su_edge_surface_points miss_pass 0) (su_shading_points miss_pass 0)
             (su_edge_records miss_pass 0) t = Vector3 0 0 0" for t
    by (simp add: update_throughput_def hit_valid_def miss_pass_def length_squared3_def dot3_def
          minus_Vector3_def)
  have b: "update_secondary_edge_weights hit_valid miss_pass 2 (\<lambda>i. Vector3 1 2 3) 0 = Vector3 0 0 0"
    using z
    by (simp add: update_secondary_edge_weights_def secondary_edge_weights_update_def
          numeral_2_eq_2 Let_def)
       (simp add: miss_pass_def)
  have c: "hit_valid (su_edge_isects miss_pass 0)"
    by (simp add: hit_valid_def miss_pass_def)
  from h a b c show ?thesis by blast
qed

subsection \<open>The primary edge sampler\<close>

text \<open>More of \<^verbatim>\<open>vector.h\<close>, for screen-space points.\<close>

definition length2 :: "Vector2 \<Rightarrow> real" where
  \<comment> \<open>Modelled from the spec: \<^verbatim>\<open>vector.h\<close> is not among the
      sources; the length of a screen-space vector.\<close>
  "length2 a = sqrt (x2 a * x2 a + y2 a * y2 a)"

definition divide2 :: "Vector2 \<Rightarrow> real \<Rightarrow> Vector2" where
  \<comment> \<open>Modelled from the spec: \<^verbatim>\<open>vector.h\<close> is not among the
      sources; a screen-space vector divided by a scalar.\<close>
  "divide2 a s = Vector2 (x2 a / s) (y2 a / s)"

definition normalize2 :: "Vector2 \<Rightarrow> Vector2" where
  \<comment> \<open>Modelled from the spec: \<^verbatim>\<open>vector.h\<close> is not among the
      sources; the screen-space vector divided by its length.\<close>
  "normalize2 a = divide2 a (length2 a)"

text \<open>
  \<^verbatim>\<open>clamp(v, l, u)\<close> on \<^verbatim>\<open>int\<close>, the conversion \<^verbatim>\<open>int(x)\<close> of a \<^verbatim>\<open>Real\<close> (towards zero), and
  \<^verbatim>\<open>thrust::upper_bound\<close> on the first \<open>n\<close> cells of an ascending array: the offset of the
  first cell that is greater than the value, \<open>n\<close> when there is none.
\<close>

definition clamp :: "int \<Rightarrow> int \<Rightarrow> int \<Rightarrow> int" where
  \<comment> \<open>Modelled from the spec: the header that declares \<^verbatim>\<open>clamp\<close> is
      not among the sources; the index is clamped into the range.\<close>
  "clamp v l u = (if v < l then l else if v > u then u else v)"

definition to_int :: "real \<Rightarrow> int" where
  "to_int r = (if 0 \<le> r then \<lfloor>r\<rfloor> else \<lceil>r\<rceil>)"

definition upper_bound :: "(int \<Rightarrow> real) \<Rightarrow> int \<Rightarrow> real \<Rightarrow> int" where
  "upper_bound a n v = int (length (takeWhile (\<lambda>i. \<not> v < a i) (map int [0 ..< nat n])))"

datatype PrimaryEdgeSample = PrimaryEdgeSample (edge_sel: real) (sample_t: real)

datatype RayDifferential =
  RayDifferential (org_dx: Vector3) (org_dy: Vector3) (dir_dx: Vector3) (dir_dy: Vector3)

text \<open>
  The data members of \<^verbatim>\<open>primary_edge_sampler\<close> that it reads, and the five buffers it
  writes.
\<close>

record primary_edge_sampler =
  ps_camera :: Camera
  ps_shapes :: Shapes
  ps_edges :: "int \<Rightarrow> Edge"
  ps_num_edges :: int
  ps_edges_pmf :: "int \<Rightarrow> real"
  ps_edges_cdf :: "int \<Rightarrow> real"
  ps_samples :: "int \<Rightarrow> PrimaryEdgeSample"
  ps_d_rendered_image :: "int \<Rightarrow> real"
  ps_channel_info :: ChannelInfo

record primary_outputs =
  po_edge_records :: "int \<Rightarrow> PrimaryEdgeRecord"
  po_rays :: "int \<Rightarrow> Ray"
  po_primary_ray_differentials :: "int \<Rightarrow> RayDifferential"
  po_throughputs :: "int \<Rightarrow> Vector3"
  po_channel_multipliers :: "int \<Rightarrow> real"

text \<open>
  The loop \<^verbatim>\<open>for (int d = 0; d < nd; d++)\<close> that stores \<open>upper d\<close> at
  \<^verbatim>\<open>channel_multipliers[2 * nd * idx + d]\<close> and \<open>lower d\<close> at
  \<^verbatim>\<open>channel_multipliers[2 * nd * idx + d + nd]\<close>.
\<close>

definition set_channel_multipliers ::
  "int \<Rightarrow> int \<Rightarrow> (int \<Rightarrow> real) \<Rightarrow> (int \<Rightarrow> real) \<Rightarrow> (int \<Rightarrow> real) \<Rightarrow> (int \<Rightarrow> real)" where
  "set_channel_multipliers nd idx upper lower channel_multipliers =
     fold (\<lambda>d cm. cm(2 * nd * idx + d := upper d, 2 * nd * idx + d + nd := lower d))
          (map int [0 ..< nat nd]) channel_multipliers"

text \<open>
  Lines 234 to 243, under the comment \<^verbatim>\<open>Initialize output\<close>. \<open>record0\<close> is the
  value-initialised \<^verbatim>\<open>PrimaryEdgeRecord{}\<close>, whose declaration is in \<^verbatim>\<open>edge.h\<close>.
\<close>

definition primary_initialize ::
  "PrimaryEdgeRecord \<Rightarrow> int \<Rightarrow> int \<Rightarrow> primary_outputs \<Rightarrow> primary_outputs" where
  "primary_initialize record0 nd idx out =
     out\<lparr>po_edge_records := (po_edge_records out)(idx := record0),
         po_throughputs :=
           (po_throughputs out)(2 * idx + 0 := Vector3 0 0 0, 2 * idx + 1 := Vector3 0 0 0),
         po_channel_multipliers :=
           set_channel_multipliers nd idx (\<lambda>d. 0) (\<lambda>d. 0) (po_channel_multipliers out),
         po_rays :=
           (po_rays out)(2 * idx + 0 := Ray (Vector3 0 0 0) (Vector3 0 0 0),
                         2 * idx + 1 := Ray (Vector3 0 0 0) (Vector3 0 0 0))\<rparr>"

text \<open>Lines 246 to 251: the edge chosen by binary search on the cdf.\<close>

definition selected_edge_id :: "primary_edge_sampler \<Rightarrow> int \<Rightarrow> int" where
  "selected_edge_id s idx =
     (let sample = ps_samples s idx;
          edge_ptr = upper_bound (ps_edges_cdf s) (ps_num_edges s) (edge_sel sample)
      in clamp (edge_ptr - 1) 0 (ps_num_edges s - 1))"

text \<open>
  \<^verbatim>\<open>d_color\<close>: three consecutive cells of \<^verbatim>\<open>d_rendered_image\<close> at the pixel \<open>(xi, yi)\<close>.
\<close>

definition d_color_at :: "primary_edge_sampler \<Rightarrow> int \<Rightarrow> int \<Rightarrow> Vector3" where
  "d_color_at s xi yi =
     (let nd = num_total_dimensions (ps_channel_info s);
          rd = radiance_dimension (ps_channel_info s);
          w = width (ps_camera s)
      in Vector3 (ps_d_rendered_image s (nd * (yi * w + xi) + rd + 0))
                 (ps_d_rendered_image s (nd * (yi * w + xi) + rd + 1))
                 (ps_d_rendered_image s (nd * (yi * w + xi) + rd + 2)))"

text \<open>
  Lines 266 to 316, the branch of a camera that is not a fisheye. \<open>None\<close> is the early
  \<^verbatim>\<open>return\<close>. \<open>get_normal\<close> is the function of \<^verbatim>\<open>vector.h\<close>.
\<close>

definition primary_sample_linear ::
  "(Vector2 \<Rightarrow> Vector2) \<Rightarrow> primary_edge_sampler \<Rightarrow> int \<Rightarrow> int \<Rightarrow> Vector2 \<Rightarrow> Vector2
     \<Rightarrow> primary_outputs \<Rightarrow> primary_outputs option" where
  "primary_sample_linear get_normal s idx edge_id v0_ss v1_ss out =
     (let camera = ps_camera s;
          sample = ps_samples s idx;
          nd = num_total_dimensions (ps_channel_info s);
          edge_pt = v0_ss + scale2 (sample_t sample) (v1_ss - v0_ss)
      in if \<not> in_screen camera edge_pt then None
         else
           let half_space_normal = get_normal (normalize2 (v0_ss - v1_ss));
               offset = 1 / 10 ^ 6;
               upper_pt = edge_pt + scale2 offset half_space_normal;
               upper_ray = sample_primary camera upper_pt;
               lower_pt = edge_pt - scale2 offset half_space_normal;
               lower_ray = sample_primary camera lower_pt;
               xi = clamp (to_int (x2 edge_pt * real_of_int (width camera))) 0 (width camera - 1);
               yi = clamp (to_int (y2 edge_pt * real_of_int (height camera))) 0 (height camera - 1);
               d_color = d_color_at s xi yi;
               upper_weight = divide3 d_color (ps_edges_pmf s edge_id);
               lower_weight = divide3 (- d_color) (ps_edges_pmf s edge_id);
               d_channel = (\<lambda>d. ps_d_rendered_image s (nd * (yi * width camera + xi) + d))
           in Some (out\<lparr>
                po_edge_records :=
                  (po_edge_records out)(idx := PrimaryEdgeRecord (ps_edges s edge_id) edge_pt),
                po_rays := (po_rays out)(2 * idx + 0 := upper_ray, 2 * idx + 1 := lower_ray),
                po_throughputs :=
                  (po_throughputs out)(2 * idx + 0 := upper_weight, 2 * idx + 1 := lower_weight),
                po_channel_multipliers :=
                  set_channel_multipliers nd idx
                    (\<lambda>d. d_channel d / ps_edges_pmf s edge_id)
                    (\<lambda>d. - d_channel d / ps_edges_pmf s edge_id)
                    (po_channel_multipliers out)\<rparr>))"

text \<open>Lines 317 to 419, the branch of a fisheye camera.\<close>

definition primary_sample_fisheye ::
  "primary_edge_sampler \<Rightarrow> int \<Rightarrow> int \<Rightarrow> Vector3 \<Rightarrow> Vector3 \<Rightarrow> Vector2 \<Rightarrow> Vector2
     \<Rightarrow> primary_outputs \<Rightarrow> primary_outputs option" where
  "primary_sample_fisheye s idx edge_id v0 v1 v0_ss v1_ss out =
     (let camera = ps_camera s;
          sample = ps_samples s idx;
          nd = num_total_dimensions (ps_channel_info s);
          v0_dir = screen_to_camera camera v0_ss;
          v1_dir = screen_to_camera camera v1_ss;
          v_dir3 = v1_dir - v0_dir;
          edge_pt3 = v0_dir + scale3 (sample_t sample) v_dir3;
          edge_pt = camera_to_screen camera edge_pt3
      in if \<not> in_screen camera edge_pt then None
         else
           let half_space_normal = normalize3 (cross3 v0_dir v1_dir);
               v0_local = to_camera camera v0;
               v1_local = to_camera camera v1;
               edge_local = v0_local + scale3 (sample_t sample) v1_local;
               offset = (1 / 10 ^ 5) / length3 edge_local;
               upper_dir = normalize3 (edge_pt3 + scale3 offset half_space_normal);
               upper_pt = camera_to_screen camera upper_dir;
               upper_ray = sample_primary camera upper_pt;
               lower_dir = normalize3 (edge_pt3 - scale3 offset half_space_normal);
               lower_pt = camera_to_screen camera lower_dir;
               lower_ray = sample_primary camera lower_pt;
               xi = to_int (x2 edge_pt * real_of_int (width camera));
               yi = to_int (y2 edge_pt * real_of_int (height camera));
               d_color = d_color_at s xi yi;
               d_edge_dir_x = fst (d_screen_to_camera camera edge_pt);
               d_edge_dir_y = snd (d_screen_to_camera camera edge_pt);
               d_alpha_dx = dot3 d_edge_dir_x (cross3 v0_dir v1_dir);
               d_alpha_dy = dot3 d_edge_dir_y (cross3 v0_dir v1_dir);
               dirac_jacobian = 1 / sqrt (d_alpha_dx * d_alpha_dx + d_alpha_dy * d_alpha_dy);
               jac_offset = 1 / 10 ^ 6;
               edge_pt3_delta = v0_dir + scale3 (sample_t sample + jac_offset) v_dir3;
               edge_pt_delta = camera_to_screen camera edge_pt3_delta;
               line_jacobian = length2 (divide2 (edge_pt_delta - edge_pt) offset);
               jacobian = line_jacobian * dirac_jacobian;
               upper_weight = scale3 jacobian (divide3 d_color (ps_edges_pmf s edge_id));
               lower_weight = scale3 jacobian (divide3 (- d_color) (ps_edges_pmf s edge_id));
               d_channel = (\<lambda>d. ps_d_rendered_image s (nd * (yi * width camera + xi) + d))
           in Some (out\<lparr>
                po_edge_records :=
                  (po_edge_records out)(idx := PrimaryEdgeRecord (ps_edges s edge_id) edge_pt),
                po_rays := (po_rays out)(2 * idx + 0 := upper_ray, 2 * idx + 1 := lower_ray),
                po_throughputs :=
                  (po_throughputs out)(2 * idx + 0 := upper_weight, 2 * idx + 1 := lower_weight),
                po_channel_multipliers :=
                  set_channel_multipliers nd idx
                    (\<lambda>d. d_channel d * jacobian / ps_edges_pmf s edge_id)
                    (\<lambda>d. - d_channel d * jacobian / ps_edges_pmf s edge_id)
                    (po_channel_multipliers out)\<rparr>))"

text \<open>Lines 421 to 435: the ray differential stored in \<^verbatim>\<open>primary_ray_differentials[idx]\<close>.\<close>

definition primary_ray_differential :: "Camera \<Rightarrow> Vector2 \<Rightarrow> RayDifferential" where
  "primary_ray_differential camera screen_pos =
     (let ray = sample_primary camera screen_pos;
          delta = 1 / 10 ^ 3;
          screen_pos_dx = screen_pos + Vector2 delta 0;
          ray_dx = sample_primary camera screen_pos_dx;
          screen_pos_dy = screen_pos + Vector2 0 delta;
          ray_dy = sample_primary camera screen_pos_dy;
          pixel_size_x = (1 / 2) / real_of_int (width camera);
          pixel_size_y = (1 / 2) / real_of_int (height camera);
          org_dx = divide3 (scale3 pixel_size_x (ray_org ray_dx - ray_org ray)) delta;
          org_dy = divide3 (scale3 pixel_size_y (ray_org ray_dy - ray_org ray)) delta;
          dir_dx = divide3 (scale3 pixel_size_x (ray_dir ray_dx - ray_dir ray)) delta;
          dir_dy = divide3 (scale3 pixel_size_y (ray_dir ray_dy - ray_dir ray)) delta
      in RayDifferential org_dx org_dy dir_dx dir_dy)"

text \<open>\<^verbatim>\<open>primary_edge_sampler::operator()(idx)\<close>.\<close>

definition primary_edge_sample ::
  "PrimaryEdgeRecord \<Rightarrow> (Vector2 \<Rightarrow> Vector2) \<Rightarrow> primary_edge_sampler \<Rightarrow> int
     \<Rightarrow> primary_outputs \<Rightarrow> primary_outputs" where
  "primary_edge_sample record0 get_normal s idx out0 =
     (let nd = num_total_dimensions (ps_channel_info s);
          out = primary_initialize record0 nd idx out0;
          edge_id = selected_edge_id s idx;
          edge = ps_edges s edge_id;
          v0 = get_v0 (ps_shapes s) edge;
          v1 = get_v1 (ps_shapes s) edge
      in case project (ps_camera s) v0 v1 of
           None \<Rightarrow> out
         | Some (v0_ss, v1_ss) \<Rightarrow>
             if ps_edges_pmf s edge_id \<le> 0 then out
             else
               (case (if \<not> fisheye (ps_camera s)
                      then primary_sample_linear get_normal s idx edge_id v0_ss v1_ss out
                      else primary_sample_fisheye s idx edge_id v0 v1 v0_ss v1_ss out) of
                  None \<Rightarrow> out
                | Some out' \<Rightarrow>
                    let screen_pos = primary_edge_pt (po_edge_records out' idx)
                    in out'\<lparr>po_primary_ray_differentials :=
                             (po_primary_ray_differentials out')
                               (idx := primary_ray_differential (ps_camera s) screen_pos)\<rparr>))"

text \<open>\<^verbatim>\<open>sample_primary_edges\<close>: the functor on \<open>idx = 0, ..., samples.size() - 1\<close>.\<close>

definition sample_primary_edges ::
  "PrimaryEdgeRecord \<Rightarrow> (Vector2 \<Rightarrow> Vector2) \<Rightarrow> primary_edge_sampler \<Rightarrow> nat
     \<Rightarrow> primary_outputs \<Rightarrow> primary_outputs" where
  "sample_primary_edges record0 get_normal s num_samples out =
     fold (primary_edge_sample record0 get_normal s) (map int [0 ..< num_samples]) out"

text \<open>
  The failures of a primary sample, in the words of the specification: the projection of
  the selected edge fails, the pmf of the edge is not positive, or the sampled point is
  outside the screen.
\<close>

definition sampled_point :: "Camera \<Rightarrow> real \<Rightarrow> Vector2 \<Rightarrow> Vector2 \<Rightarrow> Vector2" where
  "sampled_point camera t v0_ss v1_ss =
     (if \<not> fisheye camera then v0_ss + scale2 t (v1_ss - v0_ss)
      else camera_to_screen camera
             (screen_to_camera camera v0_ss
                + scale3 t (screen_to_camera camera v1_ss - screen_to_camera camera v0_ss)))"

definition primary_sample_fails :: "primary_edge_sampler \<Rightarrow> int \<Rightarrow> bool" where
  "primary_sample_fails s idx =
     (let edge_id = selected_edge_id s idx;
          edge = ps_edges s edge_id
      in case project (ps_camera s) (get_v0 (ps_shapes s) edge) (get_v1 (ps_shapes s) edge) of
           None \<Rightarrow> True
         | Some (v0_ss, v1_ss) \<Rightarrow>
             ps_edges_pmf s edge_id \<le> 0 \<or>
             \<not> in_screen (ps_camera s)
                 (sampled_point (ps_camera s) (sample_t (ps_samples s idx)) v0_ss v1_ss))"

lemma fold_zero_writes:
  "fold (\<lambda>d cm. cm(a d := 0, b d := 0)) ds cm k
     = (if k \<in> a ` set ds \<union> b ` set ds then 0 else (cm k :: real))"
  by (induction ds arbitrary: cm) auto

lemma set_channel_multipliers_zero:
  assumes "0 \<le> d" "d < nd"
  shows "set_channel_multipliers nd idx (\<lambda>d. 0) (\<lambda>d. 0) cm (2 * nd * idx + d) = 0"
    and "set_channel_multipliers nd idx (\<lambda>d. 0) (\<lambda>d. 0) cm (2 * nd * idx + d + nd) = 0"
proof -
  have "nat d \<in> {0 ..< nat nd}" "int (nat d) = d"
    using assms by simp_all
  then have "d \<in> int ` {0 ..< nat nd}"
    by (metis image_eqI)
  then have "d \<in> set (map int [0 ..< nat nd])"
    by simp
  then have "2 * nd * idx + d \<in> (\<lambda>d. 2 * nd * idx + d) ` set (map int [0 ..< nat nd])"
    and "2 * nd * idx + d + nd \<in> (\<lambda>d. 2 * nd * idx + d + nd) ` set (map int [0 ..< nat nd])"
    by blast+
  then show "set_channel_multipliers nd idx (\<lambda>d. 0) (\<lambda>d. 0) cm (2 * nd * idx + d) = 0"
    and "set_channel_multipliers nd idx (\<lambda>d. 0) (\<lambda>d. 0) cm (2 * nd * idx + d + nd) = 0"
    unfolding set_channel_multipliers_def fold_zero_writes by simp_all
qed

lemma primary_sample_linear_None:
  "primary_sample_linear get_normal s idx edge_id v0_ss v1_ss out = None \<longleftrightarrow>
     \<not> in_screen (ps_camera s)
         (v0_ss + scale2 (sample_t (ps_samples s idx)) (v1_ss - v0_ss))"
  by (simp add: primary_sample_linear_def Let_def)

lemma primary_sample_fisheye_None:
  "primary_sample_fisheye s idx edge_id v0 v1 v0_ss v1_ss out = None \<longleftrightarrow>
     \<not> in_screen (ps_camera s)
         (camera_to_screen (ps_camera s)
            (screen_to_camera (ps_camera s) v0_ss
               + scale3 (sample_t (ps_samples s idx))
                   (screen_to_camera (ps_camera s) v1_ss - screen_to_camera (ps_camera s) v0_ss)))"
  by (simp add: primary_sample_fisheye_def Let_def)

lemma primary_edge_sample_failure:
  assumes "primary_sample_fails s idx"
  shows "primary_edge_sample record0 get_normal s idx out
           = primary_initialize record0 (num_total_dimensions (ps_channel_info s)) idx out"
proof (cases "project (ps_camera s) (get_v0 (ps_shapes s) (ps_edges s (selected_edge_id s idx)))
                (get_v1 (ps_shapes s) (ps_edges s (selected_edge_id s idx)))")
  case None
  then show ?thesis by (simp add: primary_edge_sample_def Let_def)
next
  case (Some vs)
  obtain v0_ss v1_ss where vs: "vs = (v0_ss, v1_ss)" by (cases vs)
  from assms Some vs have f: "ps_edges_pmf s (selected_edge_id s idx) \<le> 0 \<or>
      \<not> in_screen (ps_camera s)
          (sampled_point (ps_camera s) (sample_t (ps_samples s idx)) v0_ss v1_ss)"
    by (simp add: primary_sample_fails_def Let_def)
  show ?thesis
  proof (cases "ps_edges_pmf s (selected_edge_id s idx) \<le> 0")
    case True
    with Some vs show ?thesis by (simp add: primary_edge_sample_def Let_def)
  next
    case False
    with f have out: "\<not> in_screen (ps_camera s)
          (sampled_point (ps_camera s) (sample_t (ps_samples s idx)) v0_ss v1_ss)"
      by blast
    show ?thesis
    proof (cases "fisheye (ps_camera s)")
      case True
      with out have "primary_sample_fisheye s idx (selected_edge_id s idx)
          (get_v0 (ps_shapes s) (ps_edges s (selected_edge_id s idx)))
          (get_v1 (ps_shapes s) (ps_edges s (selected_edge_id s idx))) v0_ss v1_ss
          (primary_initialize record0 (num_total_dimensions (ps_channel_info s)) idx out) = None"
        by (simp add: primary_sample_fisheye_None sampled_point_def)
      with Some vs False True show ?thesis
        by (simp add: primary_edge_sample_def Let_def)
    next
      case nf: False
      with out have "primary_sample_linear get_normal s idx (selected_edge_id s idx) v0_ss v1_ss
          (primary_initialize record0 (num_total_dimensions (ps_channel_info s)) idx out) = None"
        by (simp add: primary_sample_linear_None sampled_point_def)
      with Some vs False nf show ?thesis
        by (simp add: primary_edge_sample_def Let_def)
    qed
  qed
qed

text \<open>
  Claim C6, as the code has it. When a primary sample fails, the sample's edge record is
  the value-initialised record, both rays are the zero ray, both throughputs are zero
  and all \<open>2 * nd\<close> channel multipliers of the sample are zero. The buffer of primary ray
  differentials is not written: every slot, the sample's own included, keeps the value
  it had before the call.
\<close>

theorem primary_sample_failure_outputs:
  assumes "primary_sample_fails s idx"
  shows
    "po_edge_records (primary_edge_sample record0 get_normal s idx out) idx = record0 \<and>
     po_rays (primary_edge_sample record0 get_normal s idx out) (2 * idx + 0)
       = Ray (Vector3 0 0 0) (Vector3 0 0 0) \<and>
     po_rays (primary_edge_sample record0 get_normal s idx out) (2 * idx + 1)
       = Ray (Vector3 0 0 0) (Vector3 0 0 0) \<and>
     po_throughputs (primary_edge_sample record0 get_normal s idx out) (2 * idx + 0)
       = Vector3 0 0 0 \<and>
     po_throughputs (primary_edge_sample record0 get_normal s idx out) (2 * idx + 1)
       = Vector3 0 0 0 \<and>
     (\<forall>d. 0 \<le> d \<and> d < num_total_dimensions (ps_channel_info s) \<longrightarrow>
          po_channel_multipliers (primary_edge_sample record0 get_normal s idx out)
            (2 * num_total_dimensions (ps_channel_info s) * idx + d) = 0 \<and>
          po_channel_multipliers (primary_edge_sample record0 get_normal s idx out)
            (2 * num_total_dimensions (ps_channel_info s) * idx + d
               + num_total_dimensions (ps_channel_info s)) = 0) \<and>
     po_primary_ray_differentials (primary_edge_sample record0 get_normal s idx out)
       = po_primary_ray_differentials out"
  unfolding primary_edge_sample_failure [OF assms]
  by (simp add: primary_initialize_def set_channel_multipliers_zero)

text \<open>
  A sampler whose camera projects no edge, and output buffers that still hold the values
  of an earlier pass.
\<close>

definition blind_sampler :: primary_edge_sampler where
  "blind_sampler =
     \<lparr>ps_camera = flat_camera\<lparr>project := (\<lambda>a b. None)\<rparr>,
      ps_shapes = flat_shapes,
      ps_edges = (\<lambda>i. Edge 0 0 1 0 1),
      ps_num_edges = 1,
      ps_edges_pmf = (\<lambda>i. 1),
      ps_edges_cdf = (\<lambda>i. 0),
      ps_samples = (\<lambda>i. PrimaryEdgeSample (1 / 2) (1 / 2)),
      ps_d_rendered_image = (\<lambda>i. 1),
      ps_channel_info = ChannelInfo 3 0\<rparr>"

definition stale_outputs :: primary_outputs where
  "stale_outputs =
     \<lparr>po_edge_records = (\<lambda>i. PrimaryEdgeRecord (Edge 0 0 1 0 1) (Vector2 1 1)),
      po_rays = (\<lambda>i. Ray (Vector3 1 1 1) (Vector3 0 0 1)),
      po_primary_ray_differentials =
        (\<lambda>i. RayDifferential (Vector3 1 2 3) (Vector3 4 5 6) (Vector3 7 8 9) (Vector3 1 0 1)),
      po_throughputs = (\<lambda>i. Vector3 5 5 5),
      po_channel_multipliers = (\<lambda>i. 7)\<rparr>"

lemma blind_sampler_fails: "primary_sample_fails blind_sampler 0"
  by (simp add: primary_sample_fails_def blind_sampler_def Let_def)

theorem primary_sample_failure_outputs_witness:
  "primary_sample_fails blind_sampler 0 \<and>
   po_throughputs
     (primary_edge_sample (PrimaryEdgeRecord (Edge (- 1) (- 1) (- 1) (- 1) (- 1)) (Vector2 0 0))
        (\<lambda>v. Vector2 (y2 v) (- x2 v)) blind_sampler 0 stale_outputs) 1 = Vector3 0 0 0 \<and>
   po_channel_multipliers
     (primary_edge_sample (PrimaryEdgeRecord (Edge (- 1) (- 1) (- 1) (- 1) (- 1)) (Vector2 0 0))
        (\<lambda>v. Vector2 (y2 v) (- x2 v)) blind_sampler 0 stale_outputs) 5 = 0"
proof -
  note t = primary_sample_failure_outputs [OF blind_sampler_fails,
      of "PrimaryEdgeRecord (Edge (- 1) (- 1) (- 1) (- 1) (- 1)) (Vector2 0 0)"
         "\<lambda>v. Vector2 (y2 v) (- x2 v)" stale_outputs]
  have nd: "num_total_dimensions (ps_channel_info blind_sampler) = 3"
    by (simp add: blind_sampler_def)
  from t have "po_throughputs
     (primary_edge_sample (PrimaryEdgeRecord (Edge (- 1) (- 1) (- 1) (- 1) (- 1)) (Vector2 0 0))
        (\<lambda>v. Vector2 (y2 v) (- x2 v)) blind_sampler 0 stale_outputs) 1 = Vector3 0 0 0"
    by simp
  moreover from t have "0 \<le> (2::int) \<and> (2::int) < 3 \<longrightarrow> po_channel_multipliers
     (primary_edge_sample (PrimaryEdgeRecord (Edge (- 1) (- 1) (- 1) (- 1) (- 1)) (Vector2 0 0))
        (\<lambda>v. Vector2 (y2 v) (- x2 v)) blind_sampler 0 stale_outputs) (2 * 3 * 0 + 2 + 3) = 0"
    unfolding nd by blast
  ultimately show ?thesis
    using blind_sampler_fails by simp
qed

text \<open>
  Counterexample to C6 as stated: a failed sample does not leave its primary ray
  differential at zero. The sampler above fails at sample 0, and the differential of
  sample 0 is afterwards the stale one, which is not zero.
\<close>

theorem primary_ray_differential_counterexample:
  "primary_sample_fails blind_sampler 0 \<and>
   po_primary_ray_differentials
     (primary_edge_sample (PrimaryEdgeRecord (Edge (- 1) (- 1) (- 1) (- 1) (- 1)) (Vector2 0 0))
        (\<lambda>v. Vector2 (y2 v) (- x2 v)) blind_sampler 0 stale_outputs) 0
     = RayDifferential (Vector3 1 2 3) (Vector3 4 5 6) (Vector3 7 8 9) (Vector3 1 0 1) \<and>
   po_primary_ray_differentials
     (primary_edge_sample (PrimaryEdgeRecord (Edge (- 1) (- 1) (- 1) (- 1) (- 1)) (Vector2 0 0))
        (\<lambda>v. Vector2 (y2 v) (- x2 v)) blind_sampler 0 stale_outputs) 0
     \<noteq> RayDifferential (Vector3 0 0 0) (Vector3 0 0 0) (Vector3 0 0 0) (Vector3 0 0 0)"
proof -
  have "primary_edge_sample (PrimaryEdgeRecord (Edge (- 1) (- 1) (- 1) (- 1) (- 1)) (Vector2 0 0))
        (\<lambda>v. Vector2 (y2 v) (- x2 v)) blind_sampler 0 stale_outputs
      = primary_initialize (PrimaryEdgeRecord (Edge (- 1) (- 1) (- 1) (- 1) (- 1)) (Vector2 0 0))
          3 0 stale_outputs"
    by (simp add: primary_edge_sample_def blind_sampler_def Let_def)
  then show ?thesis
    using blind_sampler_fails by (simp add: primary_initialize_def stale_outputs_def)
qed

subsection \<open>The edge tree: importance of a node and descent\<close>

text \<open>
  The boxes, spheres and tree nodes of \<^verbatim>\<open>aabb.h\<close>, \<^verbatim>\<open>sphere.h\<close> and \<^verbatim>\<open>edge_tree.h\<close>, with
  the fields that \<^verbatim>\<open>edge.cpp\<close> reads. A node has two child pointers, each of which may be
  null, and an \<^verbatim>\<open>edge_id\<close> that is \<open>-1\<close> in an inner node.
\<close>

datatype AABB3 = AABB3 (p_min: Vector3) (p_max: Vector3)

datatype AABB6 = AABB6 (p_min6: Vector3) (d_min6: Vector3) (p_max6: Vector3) (d_max6: Vector3)

datatype Sphere = Sphere (center: Vector3) (radius: real)

datatype 'b BVHNode =
  BVHNode (bounds: 'b) (weighted_total_length: real) (node_edge_id: int)
          (children0: "'b BVHNode option") (children1: "'b BVHNode option")

type_synonym BVHNode3 = "AABB3 BVHNode"

type_synonym BVHNode6 = "AABB6 BVHNode"

record EdgeTreeRoots =
  cs_bvh_root :: "BVHNode3 option"
  ncs_bvh_root :: "BVHNode6 option"

definition corner :: "AABB3 \<Rightarrow> nat \<Rightarrow> Vector3" where
  \<comment> \<open>Modelled from the spec: \<^verbatim>\<open>corner\<close> is declared in
      \<^verbatim>\<open>aabb.h\<close>, which is not among the
      sources; the specification speaks of the eight corners of the axis-aligned box.
      Corner \<open>i\<close> takes the maximum on the axes whose bit is set in \<open>i\<close>.\<close>
  "corner b i =
     Vector3 (if i mod 2 = 0 then x3 (p_min b) else x3 (p_max b))
             (if (i div 2) mod 2 = 0 then y3 (p_min b) else y3 (p_max b))
             (if (i div 4) mod 2 = 0 then z3 (p_min b) else z3 (p_max b))"

text \<open>
  \<^verbatim>\<open>is_bound_below_surface\<close>: the loop over the corners \<open>i = 0, ..., 7\<close> that returns false
  at the first corner above the tangent plane. \<^verbatim>\<open>p.shading_frame[2]\<close> is the normal of
  the frame.
\<close>

fun corners_below :: "AABB3 \<Rightarrow> SurfacePoint \<Rightarrow> nat list \<Rightarrow> bool" where
  "corners_below b p [] = True"
| "corners_below b p (i # rest) =
     (if dot3 (frame_n (shading_frame p)) (corner b i - position p) > 0 then False
      else corners_below b p rest)"

definition is_bound_below_surface :: "AABB3 \<Rightarrow> SurfacePoint \<Rightarrow> bool" where
  "is_bound_below_surface b p = corners_below b p [0 ..< 8]"

text \<open>
  What \<^verbatim>\<open>importance\<close> calls: \<^verbatim>\<open>compute_bounding_sphere\<close>, \<^verbatim>\<open>inside\<close> and \<^verbatim>\<open>intersect\<close> of the
  absent headers, and \<^verbatim>\<open>ltc_sphere_integral\<close> (lines 737 to 829). The latter reads the
  table \<^verbatim>\<open>ltc::tabSphere\<close> of \<^verbatim>\<open>ltc_sphere.inc\<close> and goes through \<^verbatim>\<open>solve_cubic\<close>, \<^verbatim>\<open>atan2\<close> and
  square roots whose arguments the floating point code lets become negative; its value
  is kept as a parameter.
\<close>

record TreeGeometry =
  compute_bounding_sphere :: "AABB3 \<Rightarrow> Sphere"
  inside :: "Sphere \<Rightarrow> Vector3 \<Rightarrow> bool"
  intersect :: "Sphere \<Rightarrow> AABB3 \<Rightarrow> bool"
  ltc_sphere_integral :: "Sphere \<Rightarrow> SurfacePoint \<Rightarrow> Matrix3x3 \<Rightarrow> real"

text \<open>The two overloads of \<^verbatim>\<open>importance\<close>, lines 843 to 889.\<close>

definition importance3 ::
  "TreeGeometry \<Rightarrow> BVHNode3 \<Rightarrow> SurfacePoint \<Rightarrow> Matrix3x3 \<Rightarrow> real" where
  "importance3 g node p m_inv =
     (if is_bound_below_surface (bounds node) p then 0
      else
        let b_sphere = compute_bounding_sphere g (bounds node);
            brdf_term = (if \<not> inside g b_sphere (position p)
                         then ltc_sphere_integral g b_sphere p m_inv else pi)
        in brdf_term * weighted_total_length node
             / max (distance_squared3 (center b_sphere) (position p)) (1 / 10 ^ 6))"

definition importance6 ::
  "TreeGeometry \<Rightarrow> Vector3 \<Rightarrow> BVHNode6 \<Rightarrow> SurfacePoint \<Rightarrow> Matrix3x3 \<Rightarrow> real" where
  "importance6 g cam_org node p m_inv =
     (let p_bounds = AABB3 (p_min6 (bounds node)) (p_max6 (bounds node))
      in if is_bound_below_surface p_bounds p then 0
         else
           let d_bounds = AABB3 (d_min6 (bounds node)) (d_max6 (bounds node))
           in if \<not> intersect g
                     (Sphere (scale3 (1 / 2) (position p + cam_org))
                             ((1 / 2) * distance3 (position p) cam_org)) d_bounds
              then 0
              else
                let b_sphere = compute_bounding_sphere g p_bounds;
                    brdf_term = (if \<not> inside g b_sphere (position p)
                                 then ltc_sphere_integral g b_sphere p m_inv else pi)
                in brdf_term * weighted_total_length node
                     / max (distance_squared3 (center b_sphere) (position p)) (1 / 10 ^ 6))"

text \<open>
  The descent through the tree divides and multiplies importances, and the child it
  enters can turn on the last bit of a quotient. In this part \<^verbatim>\<open>Real\<close> is therefore read
  as the machine type: a value is finite, an infinity or NaN, and every operation of the
  source is computed exactly and then rounded to the nearest value of the format, a tie
  going to the even significand. Each operation is rounded on its own (no fused
  multiply-add). The sign of a zero is not kept, so a value that is not zero divided by
  zero takes the sign of the dividend.
\<close>

datatype double = Finite real | PlusInfinity | MinusInfinity | NaN

definition round_half_even :: "real \<Rightarrow> int" where
  "round_half_even y =
     (let f = \<lfloor>y\<rfloor>;
          r = y - of_int f
      in if r < 1 / 2 then f
         else if 1 / 2 < r then f + 1
         else if even f then f else f + 1)"

definition binade :: "real \<Rightarrow> int" where
  "binade x = \<lfloor>log 2 \<bar>x\<bar>\<rfloor>"

definition round_double :: "real \<Rightarrow> double" where
  \<comment> \<open>Modelled from the spec: \<^verbatim>\<open>Real\<close> is declared in
      \<^verbatim>\<open>redner.h\<close>, which is not among the sources; the
      specification speaks of floating tolerance. The format taken is IEEE 754 binary64,
      the \<^verbatim>\<open>double\<close> of C++: a significand of 53 bits, values spaced
      \<open>2 powi (- 1074)\<close> apart at the bottom of the range, and an infinity for a
      rounded result that reaches \<open>2 ^ 1024\<close>.\<close>
  "round_double x =
     (if x = 0 then Finite 0
      else
        let k = max (binade x - 52) (- 1074);
            r = of_int (round_half_even (x / 2 powi k)) * 2 powi k
        in if 2 ^ 1024 \<le> \<bar>r\<bar> then (if 0 < x then PlusInfinity else MinusInfinity)
           else Finite r)"

fun d_neg :: "double \<Rightarrow> double" where
  "d_neg (Finite a) = Finite (- a)"
| "d_neg PlusInfinity = MinusInfinity"
| "d_neg MinusInfinity = PlusInfinity"
| "d_neg NaN = NaN"

fun d_add :: "double \<Rightarrow> double \<Rightarrow> double" where
  "d_add (Finite a) (Finite b) = round_double (a + b)"
| "d_add NaN y = NaN"
| "d_add x NaN = NaN"
| "d_add PlusInfinity MinusInfinity = NaN"
| "d_add MinusInfinity PlusInfinity = NaN"
| "d_add PlusInfinity y = PlusInfinity"
| "d_add x PlusInfinity = PlusInfinity"
| "d_add MinusInfinity y = MinusInfinity"
| "d_add x MinusInfinity = MinusInfinity"

definition d_sub :: "double \<Rightarrow> double \<Rightarrow> double" where
  "d_sub x y = d_add x (d_neg y)"

fun d_mul :: "double \<Rightarrow> double \<Rightarrow> double" where
  "d_mul (Finite a) (Finite b) = round_double (a * b)"
| "d_mul NaN y = NaN"
| "d_mul x NaN = NaN"
| "d_mul (Finite a) y = (if a = 0 then NaN else if 0 < a then y else d_neg y)"
| "d_mul x (Finite b) = (if b = 0 then NaN else if 0 < b then x else d_neg x)"
| "d_mul PlusInfinity y = y"
| "d_mul MinusInfinity y = d_neg y"

fun d_div :: "double \<Rightarrow> double \<Rightarrow> double" where
  "d_div (Finite a) (Finite b) =
     (if b = 0 then (if a = 0 then NaN else if 0 < a then PlusInfinity else MinusInfinity)
      else round_double (a / b))"
| "d_div NaN y = NaN"
| "d_div x NaN = NaN"
| "d_div (Finite a) y = Finite 0"
| "d_div x (Finite b) = (if 0 \<le> b then x else d_neg x)"
| "d_div x y = NaN"

fun d_less :: "double \<Rightarrow> double \<Rightarrow> bool" where
  "d_less (Finite a) (Finite b) = (a < b)"
| "d_less NaN y = False"
| "d_less x NaN = False"
| "d_less x MinusInfinity = False"
| "d_less PlusInfinity y = False"
| "d_less x y = True"

fun d_le :: "double \<Rightarrow> double \<Rightarrow> bool" where
  "d_le (Finite a) (Finite b) = (a \<le> b)"
| "d_le NaN y = False"
| "d_le x NaN = False"
| "d_le MinusInfinity y = True"
| "d_le x PlusInfinity = True"
| "d_le x y = False"

text \<open>
  \<^verbatim>\<open>sample_edge\<close> on a node, lines 891 to 930, for either node type; \<open>imp\<close> is
  \<^verbatim>\<open>importance\<close> at the shading point and the transform of the call. The result is the
  returned edge id together with the final value of the reference parameter \<^verbatim>\<open>pmf\<close>. The
  literal \<^verbatim>\<open>1.f\<close> is converted to \<^verbatim>\<open>Real\<close> before the subtraction. The assertions are
  not part of the model, but an inner node with a null child makes the source read
  through a null pointer, which is the error \<open>NullChild\<close>.
\<close>

datatype error = NullChild | OutOfBounds

fun sample_edge ::
  "('b BVHNode \<Rightarrow> double) \<Rightarrow> 'b BVHNode \<Rightarrow> double \<Rightarrow> double \<Rightarrow> error + (int \<times> double)" where
  "sample_edge imp (BVHNode b w e c0 c1) sample pmf =
     (if e \<noteq> - 1 then Inr (e, pmf)
      else
        (case c0 of
           None \<Rightarrow> Inl NullChild
         | Some n0 \<Rightarrow>
             (case c1 of
                None \<Rightarrow> Inl NullChild
              | Some n1 \<Rightarrow>
                  let imp0 = imp n0;
                      imp1 = imp n1
                  in if d_le imp0 (Finite 0) \<and> d_le imp1 (Finite 0) then Inr (- 1, pmf)
                     else
                       let prob_0 = d_div imp0 (d_add imp0 imp1)
                       in if d_less sample prob_0 then
                            sample_edge imp n0
                              (d_div (d_mul sample (d_add imp0 imp1)) imp0)
                              (d_mul pmf prob_0)
                          else
                            let prob_1 = d_sub (Finite 1) prob_0
                            in sample_edge imp n1
                                 (d_div (d_sub (d_mul sample (d_add imp0 imp1)) imp0) imp1)
                                 (d_mul pmf prob_1))))"

text \<open>
  \<^verbatim>\<open>sample_edge\<close> on the two roots, lines 932 to 977. The caller, line 1131, passes
  \<^verbatim>\<open>pmf = 0\<close>.
\<close>

definition sample_edge_roots ::
  "(BVHNode3 \<Rightarrow> double) \<Rightarrow> (BVHNode6 \<Rightarrow> double) \<Rightarrow> EdgeTreeRoots \<Rightarrow> double \<Rightarrow> double
     \<Rightarrow> error + (int \<times> double)" where
  "sample_edge_roots imp3 imp6 edge_tree_roots sample pmf =
     (let imp_cs = (case cs_bvh_root edge_tree_roots of None \<Rightarrow> Finite 0 | Some r \<Rightarrow> imp3 r);
          imp_ncs = (case ncs_bvh_root edge_tree_roots of None \<Rightarrow> Finite 0 | Some r \<Rightarrow> imp6 r)
      in if d_le imp_cs (Finite 0) \<and> d_le imp_ncs (Finite 0) then Inr (- 1, pmf)
         else
           let prob_cs = d_div imp_cs (d_add imp_cs imp_ncs)
           in if d_less sample prob_cs then
                (case cs_bvh_root edge_tree_roots of
                   None \<Rightarrow> Inl NullChild
                 | Some r \<Rightarrow>
                     sample_edge imp3 r (d_div (d_mul sample (d_add imp_cs imp_ncs)) imp_cs)
                       prob_cs)
              else
                (case ncs_bvh_root edge_tree_roots of
                   None \<Rightarrow> Inl NullChild
                 | Some r \<Rightarrow>
                     sample_edge imp6 r
                       (d_div (d_sub (d_mul sample (d_add imp_cs imp_ncs)) imp_cs) imp_ncs)
                       (d_sub (Finite 1) prob_cs)))"

text \<open>
  Rounding at a given binade: a value \<open>x\<close> with \<open>2 powi e \<le> \<bar>x\<bar> < 2 powi (e + 1)\<close> in the
  normal range is rounded to a multiple of \<open>2 powi (e - 52)\<close>.
\<close>

lemma binade_eq:
  assumes "2 powi e \<le> \<bar>x\<bar>" "\<bar>x\<bar> < 2 powi (e + 1)"
  shows "binade x = e"
proof -
  have pos: "0 < \<bar>x\<bar>"
    using assms(1) by (smt (verit) zero_less_power_int)
  have p: "(2::real) powi i = 2 powr (of_int i)" for i
    by (simp add: powr_real_of_int' power_int_def)
  have "of_int e \<le> log 2 \<bar>x\<bar>"
    using assms(1) pos by (simp add: le_log_iff p)
  moreover have "log 2 \<bar>x\<bar> < of_int e + 1"
    using assms(2) pos by (simp add: log_less_iff p)
  ultimately show ?thesis
    unfolding binade_def by (rule floor_unique)
qed

lemma round_half_even_near: "\<bar>of_int (round_half_even y) - y\<bar> \<le> 1 / 2"
  unfolding round_half_even_def Let_def by (auto; linarith)

lemma round_double_eval:
  assumes lo: "2 powi e \<le> \<bar>x\<bar>" and hi: "\<bar>x\<bar> < 2 powi (e + 1)"
    and e: "- 1022 \<le> e" "e \<le> 1022"
    and n: "round_half_even (x / 2 powi (e - 52)) = n"
    and r: "r = of_int n * 2 powi (e - 52)"
  shows "round_double x = Finite r"
proof -
  define k where "k = e - 52"
  define y where "y = x / 2 powi k"
  have kpos: "(0::real) < 2 powi k" by (rule zero_less_power_int) simp
  have x0: "x \<noteq> 0"
    using lo by (smt (verit) zero_less_power_int)
  have b: "binade x = e" by (rule binade_eq [OF lo hi])
  have mk: "max (binade x - 52) (- 1074) = k"
    using e by (simp add: b k_def)
  have ny: "round_half_even y = n" using n by (simp add: y_def k_def)
  have "\<bar>of_int n\<bar> \<le> \<bar>y\<bar> + 1 / 2"
    using round_half_even_near [of y] ny by linarith
  then have "\<bar>of_int n\<bar> * 2 powi k \<le> (\<bar>y\<bar> + 1 / 2) * 2 powi k"
    using kpos by (simp add: mult_right_mono)
  also have "\<dots> = \<bar>x\<bar> + 2 powi k / 2"
    using kpos by (simp add: y_def field_simps abs_mult)
  also have "\<dots> < 2 powi (e + 1) + 2 powi (e + 1)"
  proof -
    have "(2::real) powi k \<le> 2 powi (e + 1)"
      by (rule power_int_increasing) (simp_all add: k_def)
    with kpos hi show ?thesis by linarith
  qed
  also have "\<dots> = 2 powi (e + 2)"
    by (simp add: power_int_add)
  also have "\<dots> \<le> 2 powi 1024"
    using e by (intro power_int_increasing) simp_all
  finally have "\<bar>of_int n\<bar> * 2 powi k < (2::real) powi 1024" .
  moreover have "(2::real) powi 1024 = 2 ^ 1024"
    by (simp add: power_int_def)
  ultimately have bound: "\<bar>r\<bar> < 2 ^ 1024"
    using kpos by (simp add: r k_def abs_mult)
  show ?thesis
    unfolding round_double_def Let_def mk
    using x0 ny bound by (simp add: y_def r k_def)
qed

text \<open>The points of an axis-aligned box, and boxes that have any.\<close>

definition in_box :: "AABB3 \<Rightarrow> Vector3 \<Rightarrow> bool" where
  "in_box b v =
     (x3 (p_min b) \<le> x3 v \<and> x3 v \<le> x3 (p_max b) \<and>
      y3 (p_min b) \<le> y3 v \<and> y3 v \<le> y3 (p_max b) \<and>
      z3 (p_min b) \<le> z3 v \<and> z3 v \<le> z3 (p_max b))"

definition nonempty_box :: "AABB3 \<Rightarrow> bool" where
  "nonempty_box b =
     (x3 (p_min b) \<le> x3 (p_max b) \<and> y3 (p_min b) \<le> y3 (p_max b) \<and>
      z3 (p_min b) \<le> z3 (p_max b))"

lemma corners_below_iff:
  "corners_below b p is \<longleftrightarrow>
     (\<forall>i \<in> set is. dot3 (frame_n (shading_frame p)) (corner b i - position p) \<le> 0)"
  by (induction "is") (auto simp: not_less)

lemma is_bound_below_surface_iff:
  "is_bound_below_surface b p \<longleftrightarrow>
     (\<forall>i < 8. dot3 (frame_n (shading_frame p)) (corner b i - position p) \<le> 0)"
  by (auto simp: is_bound_below_surface_def corners_below_iff)

lemma corner_in_box: "nonempty_box b \<Longrightarrow> in_box b (corner b i)"
  by (simp add: nonempty_box_def in_box_def corner_def)

lemma dot3_coordinates:
  "dot3 n (v - q) = x3 n * (x3 v - x3 q) + y3 n * (y3 v - y3 q) + z3 n * (z3 v - z3 q)"
  by (simp add: dot3_def minus_Vector3_def)

lemma coordinate_bound:
  fixes a lo hi v :: real
  assumes "lo \<le> v" "v \<le> hi"
  shows "a * (v - q) \<le> a * ((if 0 \<le> a then hi else lo) - q)"
proof (cases "0 \<le> a")
  case True
  then show ?thesis using assms by (simp add: mult_left_mono)
next
  case False
  then have "a \<le> 0" by simp
  then have "a * (v - q) \<le> a * (lo - q)"
    using assms by (intro mult_left_mono_neg) simp_all
  with False show ?thesis by simp
qed

lemma box_dominated_by_corner:
  assumes "in_box b v"
  shows "\<exists>i < 8. dot3 n (v - q) \<le> dot3 n (corner b i - q)"
proof -
  define i :: nat where
    "i = (if 0 \<le> x3 n then 1 else 0) + 2 * (if 0 \<le> y3 n then 1 else 0)
           + 4 * (if 0 \<le> z3 n then 1 else 0)"
  have i8: "i < 8" by (simp add: i_def)
  have c: "corner b i =
     Vector3 (if 0 \<le> x3 n then x3 (p_max b) else x3 (p_min b))
             (if 0 \<le> y3 n then y3 (p_max b) else y3 (p_min b))
             (if 0 \<le> z3 n then z3 (p_max b) else z3 (p_min b))"
    by (simp add: corner_def i_def)
  have "x3 n * (x3 v - x3 q) \<le> x3 n * ((if 0 \<le> x3 n then x3 (p_max b) else x3 (p_min b)) - x3 q)"
    "y3 n * (y3 v - y3 q) \<le> y3 n * ((if 0 \<le> y3 n then y3 (p_max b) else y3 (p_min b)) - y3 q)"
    "z3 n * (z3 v - z3 q) \<le> z3 n * ((if 0 \<le> z3 n then z3 (p_max b) else z3 (p_min b)) - z3 q)"
    using assms by (simp_all add: in_box_def coordinate_bound)
  then have "dot3 n (v - q) \<le> dot3 n (corner b i - q)"
    unfolding dot3_coordinates c by simp
  with i8 show ?thesis by blast
qed

lemma box_below_iff_corners:
  assumes "nonempty_box b"
  shows "(\<forall>v. in_box b v \<longrightarrow> dot3 n (v - q) \<le> 0) \<longleftrightarrow>
         (\<forall>i < 8. dot3 n (corner b i - q) \<le> 0)"
proof
  assume "\<forall>v. in_box b v \<longrightarrow> dot3 n (v - q) \<le> 0"
  then show "\<forall>i < 8. dot3 n (corner b i - q) \<le> 0"
    using corner_in_box [OF assms] by blast
next
  assume c: "\<forall>i < 8. dot3 n (corner b i - q) \<le> 0"
  show "\<forall>v. in_box b v \<longrightarrow> dot3 n (v - q) \<le> 0"
  proof (intro allI impI)
    fix v assume "in_box b v"
    from box_dominated_by_corner [OF this, of n q] c
    show "dot3 n (v - q) \<le> 0" by (meson order_trans)
  qed
qed

text \<open>
  Claim C3. If all eight corners of a node's box have a dot product that is not positive
  with the shading normal, relative to the shading point, the importance of the node
  is exactly zero, for both node types; and so it is if every point of a box that has
  points lies on or below the tangent plane, since the corners are points of the box.
\<close>

theorem importance_zero_below_surface:
  "((\<forall>i < 8. dot3 (frame_n (shading_frame p)) (corner (bounds node3) i - position p) \<le> 0)
      \<longrightarrow> importance3 g node3 p m_inv = 0) \<and>
   ((\<forall>i < 8. dot3 (frame_n (shading_frame p))
                (corner (AABB3 (p_min6 (bounds node6)) (p_max6 (bounds node6))) i - position p) \<le> 0)
      \<longrightarrow> importance6 g cam_org node6 p m_inv = 0) \<and>
   (nonempty_box (bounds node3) \<and>
    (\<forall>v. in_box (bounds node3) v \<longrightarrow>
          dot3 (frame_n (shading_frame p)) (v - position p) \<le> 0)
      \<longrightarrow> importance3 g node3 p m_inv = 0) \<and>
   (nonempty_box (AABB3 (p_min6 (bounds node6)) (p_max6 (bounds node6))) \<and>
    (\<forall>v. in_box (AABB3 (p_min6 (bounds node6)) (p_max6 (bounds node6))) v \<longrightarrow>
          dot3 (frame_n (shading_frame p)) (v - position p) \<le> 0)
      \<longrightarrow> importance6 g cam_org node6 p m_inv = 0)"
proof -
  have a: "importance3 g node3 p m_inv = 0"
    if "\<forall>i < 8. dot3 (frame_n (shading_frame p)) (corner (bounds node3) i - position p) \<le> 0"
    using that by (simp add: importance3_def is_bound_below_surface_iff)
  have b: "importance6 g cam_org node6 p m_inv = 0"
    if "\<forall>i < 8. dot3 (frame_n (shading_frame p))
                (corner (AABB3 (p_min6 (bounds node6)) (p_max6 (bounds node6))) i - position p) \<le> 0"
    using that by (simp add: importance6_def is_bound_below_surface_iff)
  show ?thesis
    using a b box_below_iff_corners by blast
qed

text \<open>
  Nodes to evaluate: a shading point at the origin with normal \<open>(0, 0, 1)\<close>, a box above
  it and a box below it, and collaborators for which the bounding sphere is centred two
  units above the point.
\<close>

definition open_geometry :: TreeGeometry where
  "open_geometry =
     \<lparr>compute_bounding_sphere = (\<lambda>b. Sphere (Vector3 0 0 2) 1),
      inside = (\<lambda>s v. False),
      intersect = (\<lambda>s b. True),
      ltc_sphere_integral = (\<lambda>s q m. 1)\<rparr>"

definition up_point :: SurfacePoint where
  "up_point =
     \<lparr>position = Vector3 0 0 0, geom_normal = Vector3 0 0 1,
      shading_frame = Frame (Vector3 1 0 0) (Vector3 0 1 0) (Vector3 0 0 1),
      dn_dx = Vector3 0 0 0, dn_dy = Vector3 0 0 0\<rparr>"

definition identity3 :: Matrix3x3 where
  "identity3 = Matrix3x3 (Vector3 1 0 0) (Vector3 0 1 0) (Vector3 0 0 1)"

definition box_above :: AABB3 where
  "box_above = AABB3 (Vector3 0 0 1) (Vector3 1 1 2)"

definition box_below :: AABB3 where
  "box_below = AABB3 (Vector3 (- 1) (- 1) (- 2)) (Vector3 1 1 (- 1))"

definition sunk_leaf :: BVHNode3 where
  "sunk_leaf = BVHNode box_below 5 0 None None"

definition sunk_leaf6 :: BVHNode6 where
  "sunk_leaf6 =
     BVHNode (AABB6 (Vector3 (- 1) (- 1) (- 2)) (Vector3 0 0 0) (Vector3 1 1 (- 1)) (Vector3 1 1 1))
       5 0 None None"

lemma upt_8: "[0 ..< 8] = [0, 1, 2, 3, 4, 5, 6, 7]"
  by (simp add: upt_rec)

lemma above_not_below: "\<not> is_bound_below_surface box_above up_point"
  by (simp add: is_bound_below_surface_def upt_8 box_above_def up_point_def corner_def
        dot3_def minus_Vector3_def)

lemma leaf_importance:
  "importance3 open_geometry (BVHNode box_above w e c0 c1) up_point identity3 = w / 4"
  using above_not_below
  by (simp add: importance3_def open_geometry_def up_point_def
        distance_squared3_def length_squared3_def dot3_def minus_Vector3_def)

lemma sunk_corners:
  "\<forall>i < 8. dot3 (frame_n (shading_frame up_point)) (corner box_below i - position up_point) \<le> 0"
  by (simp add: up_point_def box_below_def corner_def dot3_def minus_Vector3_def)

theorem importance_zero_below_surface_witness:
  "is_bound_below_surface (bounds sunk_leaf) up_point \<and>
   importance3 open_geometry sunk_leaf up_point identity3 = 0 \<and>
   importance6 open_geometry (Vector3 0 0 5) sunk_leaf6 up_point identity3 = 0 \<and>
   nonempty_box (bounds sunk_leaf) \<and>
   importance3 open_geometry (BVHNode box_above 4 0 None None) up_point identity3 = 1"
proof -
  have c: "\<forall>i < 8. dot3 (frame_n (shading_frame up_point))
              (corner (bounds sunk_leaf) i - position up_point) \<le> 0"
    using sunk_corners by (simp add: sunk_leaf_def)
  have c6: "\<forall>i < 8. dot3 (frame_n (shading_frame up_point))
              (corner (AABB3 (p_min6 (bounds sunk_leaf6)) (p_max6 (bounds sunk_leaf6))) i
                 - position up_point) \<le> 0"
    using sunk_corners by (simp add: sunk_leaf6_def box_below_def)
  have n: "nonempty_box (bounds sunk_leaf)"
    by (simp add: nonempty_box_def sunk_leaf_def box_below_def)
  note t = importance_zero_below_surface
    [of up_point sunk_leaf open_geometry identity3 sunk_leaf6 "Vector3 0 0 5"]
  from t c have "importance3 open_geometry sunk_leaf up_point identity3 = 0" by blast
  moreover from t c6 have "importance6 open_geometry (Vector3 0 0 5) sunk_leaf6 up_point identity3 = 0"
    by blast
  ultimately show ?thesis
    using c n by (simp add: leaf_importance is_bound_below_surface_iff)
qed

subsection \<open>A descent that ends in a leaf below the surface\<close>

text \<open>
  The rescaling of the sample at lines 913 and 955 can round to exactly \<open>1\<close>. At a node
  whose second child has importance zero, \<^verbatim>\<open>prob_0\<close> is \<open>1\<close>, the test
  \<^verbatim>\<open>sample < prob_0\<close> fails for that sample and the descent enters the second child with
  \<^verbatim>\<open>pmf\<close> multiplied by \<open>1 - prob_0 = 0\<close>.

  The scene: the shading point \<open>up_point\<close> at the origin with normal \<open>(0, 0, 1)\<close>, and a
  tree of cubes centred at that point, apart from the box of edge \<open>1\<close>, which lies below
  the tangent plane. For a node whose bounding sphere has the shading point as its
  centre, \<^verbatim>\<open>importance\<close> (lines 843 to 860) keeps \<^verbatim>\<open>brdf_term = Real(M_PI)\<close>, the squared
  distance is zero and the maximum at line 860 is \<^verbatim>\<open>Real(1e-6f)\<close>; \<open>M_PI\<close> and \<open>float_1e_6\<close>
  are the values of the two constants, \<^verbatim>\<open>0x1.921fb54442d18p+1\<close> and \<^verbatim>\<open>0x1.0c6f7ap-20\<close>.
  The coordinates are small integers, on which the corner test of
  \<^verbatim>\<open>is_bound_below_surface\<close> is exact.
\<close>

definition M_PI :: real where
  "M_PI = 884279719003555 / 2 ^ 48"

definition float_1e_6 :: real where
  "float_1e_6 = 8796093 / 2 ^ 43"

definition importance_at_centre :: "SurfacePoint \<Rightarrow> BVHNode3 \<Rightarrow> double" where
  "importance_at_centre p node =
     (if is_bound_below_surface (bounds node) p then Finite 0
      else d_div (d_mul (Finite M_PI) (Finite (weighted_total_length node)))
             (Finite float_1e_6))"

definition box_around :: AABB3 where
  "box_around = AABB3 (Vector3 (- 2) (- 2) (- 2)) (Vector3 2 2 2)"

definition box_wide :: AABB3 where
  "box_wide = AABB3 (Vector3 (- 3) (- 3) (- 3)) (Vector3 3 3 3)"

definition stacked_tree :: BVHNode3 where
  "stacked_tree =
     BVHNode box_wide 35 (- 1)
       (Some (BVHNode box_around 11 (- 1)
                (Some (BVHNode box_around 6 0 None None))
                (Some (BVHNode box_below 5 1 None None))))
       (Some (BVHNode box_wide 24 2 None None))"

definition stacked_roots :: EdgeTreeRoots where
  "stacked_roots = \<lparr>cs_bvh_root = Some stacked_tree, ncs_bvh_root = None\<rparr>"

text \<open>
  The sample \<^verbatim>\<open>0x1.41d41d41d41d3p-2\<close>, one unit in the last place below the double
  nearest to \<open>11 / 35\<close>.
\<close>

definition boundary_sample :: double where
  "boundary_sample = Finite (5661668102980051 / 2 ^ 54)"

lemma d_add_eval:
  assumes "2 powi e \<le> \<bar>a + b\<bar>" "\<bar>a + b\<bar> < 2 powi (e + 1)" "- 1022 \<le> e" "e \<le> 1022"
    and "round_half_even ((a + b) / 2 powi (e - 52)) = n"
    and "r = of_int n * 2 powi (e - 52)"
  shows "d_add (Finite a) (Finite b) = Finite r"
  using round_double_eval [OF assms] by simp

lemma d_mul_eval:
  assumes "2 powi e \<le> \<bar>a * b\<bar>" "\<bar>a * b\<bar> < 2 powi (e + 1)" "- 1022 \<le> e" "e \<le> 1022"
    and "round_half_even (a * b / 2 powi (e - 52)) = n"
    and "r = of_int n * 2 powi (e - 52)"
  shows "d_mul (Finite a) (Finite b) = Finite r"
  using round_double_eval [OF assms] by simp

lemma d_div_eval:
  assumes "2 powi e \<le> \<bar>a / b\<bar>" "\<bar>a / b\<bar> < 2 powi (e + 1)" "- 1022 \<le> e" "e \<le> 1022"
    and "round_half_even (a / b / 2 powi (e - 52)) = n"
    and "r = of_int n * 2 powi (e - 52)"
  shows "d_div (Finite a) (Finite b) = Finite r"
proof -
  have "b \<noteq> 0"
    using assms(1) by (smt (verit) zero_less_power_int div_by_0 abs_zero)
  then show ?thesis
    using round_double_eval [OF assms] by simp
qed

lemma round_double_zero: "round_double 0 = Finite 0"
  by (simp add: round_double_def)

text \<open>The roundings of the run, one operation each.\<close>

lemma pi_times_35:
  "d_mul (Finite M_PI) (Finite 35)
     = Finite (3868723770640553 / 35184372088832)"
  by (rule d_mul_eval [where e = 6 and n = 7737447541281106])
     (simp_all add: M_PI_def float_1e_6_def round_half_even_def Let_def)

lemma importance_35:
  "d_div (Finite (3868723770640553 / 35184372088832)) (Finite float_1e_6)
     = Finite (7379005013290675 / 67108864)"
  by (rule d_div_eval [where e = 26 and n = 7379005013290675])
     (simp_all add: M_PI_def float_1e_6_def round_half_even_def Let_def)

lemma pi_times_11:
  "d_mul (Finite M_PI) (Finite 11)
     = Finite (18998197087967 / 549755813888)"
  by (rule d_mul_eval [where e = 5 and n = 4863538454519552])
     (simp_all add: M_PI_def float_1e_6_def round_half_even_def Let_def)

lemma importance_11:
  "d_div (Finite (18998197087967 / 549755813888)) (Finite float_1e_6)
     = Finite (4638231722639853 / 134217728)"
  by (rule d_div_eval [where e = 25 and n = 4638231722639853])
     (simp_all add: M_PI_def float_1e_6_def round_half_even_def Let_def)

lemma pi_times_24:
  "d_mul (Finite M_PI) (Finite 24)
     = Finite (2652839157010665 / 35184372088832)"
  by (rule d_mul_eval [where e = 6 and n = 5305678314021330])
     (simp_all add: M_PI_def float_1e_6_def round_half_even_def Let_def)

lemma importance_24:
  "d_div (Finite (2652839157010665 / 35184372088832)) (Finite float_1e_6)
     = Finite (5059889151970749 / 67108864)"
  by (rule d_div_eval [where e = 26 and n = 5059889151970749])
     (simp_all add: M_PI_def float_1e_6_def round_half_even_def Let_def)

lemma pi_times_6:
  "d_mul (Finite M_PI) (Finite 6)
     = Finite (2652839157010665 / 140737488355328)"
  by (rule d_mul_eval [where e = 4 and n = 5305678314021330])
     (simp_all add: M_PI_def float_1e_6_def round_half_even_def Let_def)

lemma importance_6:
  "d_div (Finite (2652839157010665 / 140737488355328)) (Finite float_1e_6)
     = Finite (5059889151970749 / 268435456)"
  by (rule d_div_eval [where e = 24 and n = 5059889151970749])
     (simp_all add: M_PI_def float_1e_6_def round_half_even_def Let_def)

lemma root_sum:
  "d_add (Finite (7379005013290675 / 67108864)) (Finite 0)
     = Finite (7379005013290675 / 67108864)"
  by (rule d_add_eval [where e = 26 and n = 7379005013290675])
     (simp_all add: M_PI_def float_1e_6_def round_half_even_def Let_def)

lemma root_prob:
  "d_div (Finite (7379005013290675 / 67108864)) (Finite (7379005013290675 / 67108864))
     = Finite 1"
  by (rule d_div_eval [where e = 0 and n = 4503599627370496])
     (simp_all add: M_PI_def float_1e_6_def round_half_even_def Let_def)

lemma root_scaled:
  "d_mul (Finite (5661668102980051 / 18014398509481984)) (Finite (7379005013290675 / 67108864))
     = Finite (1159557930659963 / 33554432)"
  by (rule d_mul_eval [where e = 25 and n = 4638231722639852])
     (simp_all add: M_PI_def float_1e_6_def round_half_even_def Let_def)

lemma root_sample:
  "d_div (Finite (1159557930659963 / 33554432)) (Finite (7379005013290675 / 67108864))
     = Finite (5661668102980051 / 18014398509481984)"
  by (rule d_div_eval [where e = "- 2" and n = 5661668102980051])
     (simp_all add: M_PI_def float_1e_6_def round_half_even_def Let_def)

lemma node_sum:
  "d_add (Finite (4638231722639853 / 134217728)) (Finite (5059889151970749 / 67108864))
     = Finite (1844751253322669 / 16777216)"
  by (rule d_add_eval [where e = 26 and n = 7379005013290676])
     (simp_all add: M_PI_def float_1e_6_def round_half_even_def Let_def)

lemma node_prob:
  "d_div (Finite (4638231722639853 / 134217728)) (Finite (1844751253322669 / 16777216))
     = Finite (1415417025745013 / 4503599627370496)"
  by (rule d_div_eval [where e = "- 2" and n = 5661668102980052])
     (simp_all add: M_PI_def float_1e_6_def round_half_even_def Let_def)

lemma node_pmf:
  "d_mul (Finite 1) (Finite (1415417025745013 / 4503599627370496))
     = Finite (1415417025745013 / 4503599627370496)"
  by (rule d_mul_eval [where e = "- 2" and n = 5661668102980052])
     (simp_all add: M_PI_def float_1e_6_def round_half_even_def Let_def)

lemma node_scaled:
  "d_mul (Finite (5661668102980051 / 18014398509481984)) (Finite (1844751253322669 / 16777216))
     = Finite (4638231722639853 / 134217728)"
  by (rule d_mul_eval [where e = 25 and n = 4638231722639853])
     (simp_all add: M_PI_def float_1e_6_def round_half_even_def Let_def)

lemma node_sample:
  "d_div (Finite (4638231722639853 / 134217728)) (Finite (4638231722639853 / 134217728))
     = Finite 1"
  by (rule d_div_eval [where e = 0 and n = 4503599627370496])
     (simp_all add: M_PI_def float_1e_6_def round_half_even_def Let_def)

lemma leaf_sum:
  "d_add (Finite (5059889151970749 / 268435456)) (Finite 0)
     = Finite (5059889151970749 / 268435456)"
  by (rule d_add_eval [where e = 24 and n = 5059889151970749])
     (simp_all add: M_PI_def float_1e_6_def round_half_even_def Let_def)

lemma leaf_prob:
  "d_div (Finite (5059889151970749 / 268435456)) (Finite (5059889151970749 / 268435456))
     = Finite 1"
  by (rule d_div_eval [where e = 0 and n = 4503599627370496])
     (simp_all add: M_PI_def float_1e_6_def round_half_even_def Let_def)

lemma leaf_scaled:
  "d_mul (Finite 1) (Finite (5059889151970749 / 268435456))
     = Finite (5059889151970749 / 268435456)"
  by (rule d_mul_eval [where e = 24 and n = 5059889151970749])
     (simp_all add: M_PI_def float_1e_6_def round_half_even_def Let_def)

lemma around_not_below: "\<not> is_bound_below_surface box_around up_point"
  by (simp add: is_bound_below_surface_def upt_8 box_around_def up_point_def corner_def
        dot3_def minus_Vector3_def)

lemma below_is_below: "is_bound_below_surface box_below up_point"
  using sunk_corners by (simp add: is_bound_below_surface_iff)

lemma wide_not_below: "\<not> is_bound_below_surface box_wide up_point"
  by (simp add: is_bound_below_surface_def upt_8 box_wide_def up_point_def corner_def
        dot3_def minus_Vector3_def)

lemma importance_around:
  "importance_at_centre up_point (BVHNode box_around w e c0 c1)
     = d_div (d_mul (Finite M_PI) (Finite w)) (Finite float_1e_6)"
  using around_not_below by (simp add: importance_at_centre_def)

lemma importance_wide:
  "importance_at_centre up_point (BVHNode box_wide w e c0 c1)
     = d_div (d_mul (Finite M_PI) (Finite w)) (Finite float_1e_6)"
  using wide_not_below by (simp add: importance_at_centre_def)

lemma importance_below:
  "importance_at_centre up_point (BVHNode box_below w e c0 c1) = Finite 0"
  using below_is_below by (simp add: importance_at_centre_def)

text \<open>
  Claim C2 fails in the code. The sample above lies in \<open>[0, 1)\<close> and the box of edge \<open>1\<close>
  lies below the tangent plane, so that the importance of its leaf is zero; yet the
  descent of the source, called with \<^verbatim>\<open>pmf = 0\<close> as at line 1131 and whatever the
  importance of the other node type, returns edge \<open>1\<close> with a pmf of zero. The assertion
  \<^verbatim>\<open>assert(pmf > 0)\<close> at line 1136 excludes that value, and line 1138 divides by it.
\<close>

theorem edge_tree_descent_zero_pmf:
  "d_le (Finite 0) boundary_sample \<and> d_less boundary_sample (Finite 1) \<and>
   is_bound_below_surface box_below up_point \<and>
   importance_at_centre up_point (BVHNode box_below 5 1 None None) = Finite 0 \<and>
   sample_edge_roots (importance_at_centre up_point) imp6 stacked_roots
       boundary_sample (Finite 0)
     = Inr (1, Finite 0)"
proof -
  have s: "boundary_sample = Finite (5661668102980051 / 18014398509481984)"
    by (simp add: boundary_sample_def)
  have i35: "importance_at_centre up_point (BVHNode box_wide 35 e c0 c1)
               = Finite (7379005013290675 / 67108864)" for e c0 c1
    by (simp only: importance_wide pi_times_35 importance_35)
  have i11: "importance_at_centre up_point (BVHNode box_around 11 e c0 c1)
               = Finite (4638231722639853 / 134217728)" for e c0 c1
    by (simp only: importance_around pi_times_11 importance_11)
  have i24: "importance_at_centre up_point (BVHNode box_wide 24 e c0 c1)
               = Finite (5059889151970749 / 67108864)" for e c0 c1
    by (simp only: importance_wide pi_times_24 importance_24)
  have i6: "importance_at_centre up_point (BVHNode box_around 6 e c0 c1)
               = Finite (5059889151970749 / 268435456)" for e c0 c1
    by (simp only: importance_around pi_times_6 importance_6)
  have unit: "d_sub (Finite 1) (Finite 1) = Finite 0"
    by (simp add: d_sub_def round_double_zero)
  have none: "d_mul (Finite (1415417025745013 / 4503599627370496)) (Finite 0) = Finite 0"
    by (simp add: round_double_zero)
  have rest: "d_sub (Finite (5059889151970749 / 268435456))
                (Finite (5059889151970749 / 268435456)) = Finite 0"
    by (simp add: d_sub_def round_double_zero)
  have nan: "d_div (Finite 0) (Finite 0) = NaN"
    by simp
  have run: "sample_edge_roots (importance_at_centre up_point) imp6 stacked_roots
       boundary_sample (Finite 0) = Inr (1, Finite 0)"
    unfolding sample_edge_roots_def stacked_roots_def stacked_tree_def s
    by (simp add: Let_def i35 i11 i24 i6 importance_below
          root_sum root_prob root_scaled root_sample
          node_sum node_prob node_pmf node_scaled node_sample
          leaf_sum leaf_prob leaf_scaled unit none rest nan
          del: d_add.simps d_mul.simps d_div.simps)
  show ?thesis
    using run below_is_below by (simp add: s importance_below)
qed

subsection \<open>Sampling a point on the chosen edge\<close>

text \<open>
  Lines 1166 to 1187 of the secondary sampler. From the clipped endpoints \<open>v0o\<close>, \<open>v1o\<close> in
  the local frame: the unit tangent \<open>wt\<close>, the parameters \<open>l0\<close>, \<open>l1\<close> of the endpoints, the
  foot \<open>vo\<close> of the perpendicular and its length \<open>d\<close>; the primitive \<open>I\<close> of the line
  integral, and the cdf and pdf along the line that the source builds as lambdas.
\<close>

definition line_integral :: "real \<Rightarrow> Vector3 \<Rightarrow> Vector3 \<Rightarrow> real \<Rightarrow> real" where
  "line_integral d vo wt l =
     (l / (d * (d * d + l * l)) + arctan (l / d) / (d * d)) * z3 vo
       + (l * l / (d * (d * d + l * l))) * z3 wt"

definition line_cdf :: "real \<Rightarrow> Vector3 \<Rightarrow> Vector3 \<Rightarrow> real \<Rightarrow> real \<Rightarrow> real \<Rightarrow> real" where
  "line_cdf d vo wt l0 l1 l =
     (let Il0 = line_integral d vo wt l0;
          Il1 = line_integral d vo wt l1;
          normalization = Il1 - Il0
      in (line_integral d vo wt l - Il0) / normalization)"

definition line_pdf :: "real \<Rightarrow> Vector3 \<Rightarrow> Vector3 \<Rightarrow> real \<Rightarrow> real \<Rightarrow> real \<Rightarrow> real" where
  "line_pdf d vo wt l0 l1 l =
     (let normalization = line_integral d vo wt l1 - line_integral d vo wt l0;
          dist_sq = d * d + l * l
      in 2 * d * z3 (vo + scale3 l wt) / (normalization * dist_sq * dist_sq))"

text \<open>
  The loop of lines 1196 to 1213, \<^verbatim>\<open>for (int it = 0; it < 20; it++)\<close>, from the iteration
  \<open>it\<close> on, with the current \<open>lb\<close>, \<open>ub\<close> and \<open>l\<close>. The result is the triple \<open>(lb, ub, l)\<close>
  when the loop is left. \<open>cdf\<close> and \<open>pdf\<close> are \<^verbatim>\<open>line_cdf\<close> and \<^verbatim>\<open>line_pdf\<close>, \<open>t\<close> is
  \<^verbatim>\<open>edge_sample.t\<close>.
\<close>

function invert_loop ::
  "(real \<Rightarrow> real) \<Rightarrow> (real \<Rightarrow> real) \<Rightarrow> real \<Rightarrow> nat \<Rightarrow> real \<Rightarrow> real \<Rightarrow> real
     \<Rightarrow> real \<times> real \<times> real" where
  "invert_loop cdf pdf t it lb ub l =
     (if it < 20 then
        (let l = (if \<not> (l \<ge> lb \<and> l \<le> ub) then (1 / 2) * (lb + ub) else l);
             value = cdf l - t
         in if \<bar>value\<bar> < 1 / 10 ^ 5 \<or> it = 19 then (lb, ub, l)
            else
              let ub' = (if value > 0 then l else ub);
                  lb' = (if value > 0 then lb else l);
                  derivative = pdf l
              in invert_loop cdf pdf t (it + 1) lb' ub' (l - value / derivative))
      else (lb, ub, l))"
  by pat_completeness auto
termination
  by (relation "measure (\<lambda>(cdf, pdf, t, it, lb, ub, l). 20 - it)") auto

text \<open>
  The same loop, keeping for every iteration it enters the bracket and the iterate at
  the point where \<^verbatim>\<open>line_cdf(l)\<close> is evaluated, that is after the reset to the midpoint.
\<close>

function invert_trace ::
  "(real \<Rightarrow> real) \<Rightarrow> (real \<Rightarrow> real) \<Rightarrow> real \<Rightarrow> nat \<Rightarrow> real \<Rightarrow> real \<Rightarrow> real
     \<Rightarrow> (real \<times> real \<times> real) list" where
  "invert_trace cdf pdf t it lb ub l =
     (if it < 20 then
        (let l = (if \<not> (l \<ge> lb \<and> l \<le> ub) then (1 / 2) * (lb + ub) else l);
             value = cdf l - t
         in (lb, ub, l) #
            (if \<bar>value\<bar> < 1 / 10 ^ 5 \<or> it = 19 then []
             else
               let ub' = (if value > 0 then l else ub);
                   lb' = (if value > 0 then lb else l);
                   derivative = pdf l
               in invert_trace cdf pdf t (it + 1) lb' ub' (l - value / derivative)))
      else [])"
  by pat_completeness auto
termination
  by (relation "measure (\<lambda>(cdf, pdf, t, it, lb, ub, l). 20 - it)") auto

text \<open>
  Lines 1190 to 1195 and the loop: the bracket is \<open>[l0, l1]\<close>, swapped when \<open>l0 > l1\<close>, and
  the first iterate is its midpoint.
\<close>

definition initial_bracket :: "real \<Rightarrow> real \<Rightarrow> real \<times> real" where
  "initial_bracket l0 l1 = (if l0 > l1 then (l1, l0) else (l0, l1))"

definition invert_cdf ::
  "(real \<Rightarrow> real) \<Rightarrow> (real \<Rightarrow> real) \<Rightarrow> real \<Rightarrow> real \<Rightarrow> real \<Rightarrow> real \<times> real \<times> real" where
  "invert_cdf cdf pdf t l0 l1 =
     (case initial_bracket l0 l1 of (lb, ub) \<Rightarrow>
        invert_loop cdf pdf t 0 lb ub ((1 / 2) * (lb + ub)))"

definition invert_cdf_trace ::
  "(real \<Rightarrow> real) \<Rightarrow> (real \<Rightarrow> real) \<Rightarrow> real \<Rightarrow> real \<Rightarrow> real \<Rightarrow> (real \<times> real \<times> real) list" where
  "invert_cdf_trace cdf pdf t l0 l1 =
     (case initial_bracket l0 l1 of (lb, ub) \<Rightarrow>
        invert_trace cdf pdf t 0 lb ub ((1 / 2) * (lb + ub)))"

text \<open>The whole of lines 1166 to 1213 for one edge: the solved parameter \<open>l\<close>.\<close>

definition sample_line_parameter :: "Vector3 \<Rightarrow> Vector3 \<Rightarrow> real \<Rightarrow> real" where
  "sample_line_parameter v0o v1o t =
     (let vodir = v1o - v0o;
          wt = normalize3 vodir;
          l0 = dot3 v0o wt;
          l1 = dot3 v1o wt;
          vo = v0o - scale3 l0 wt;
          d = length3 vo
      in snd (snd (invert_cdf (line_cdf d vo wt l0 l1) (line_pdf d vo wt l0 l1) t l0 l1)))"

declare invert_loop.simps [simp del] invert_trace.simps [simp del]

text \<open>The iterate after lines 1197 to 1199, and one turn of each loop.\<close>

definition reset_iterate :: "real \<Rightarrow> real \<Rightarrow> real \<Rightarrow> real" where
  "reset_iterate lb ub l = (if \<not> (l \<ge> lb \<and> l \<le> ub) then (1 / 2) * (lb + ub) else l)"

lemma invert_trace_step:
  assumes "it < 20"
  shows "invert_trace cdf pdf t it lb ub l =
     (lb, ub, reset_iterate lb ub l) #
       (if \<bar>cdf (reset_iterate lb ub l) - t\<bar> < 1 / 10 ^ 5 \<or> it = 19 then []
        else invert_trace cdf pdf t (it + 1)
               (if cdf (reset_iterate lb ub l) - t > 0 then lb else reset_iterate lb ub l)
               (if cdf (reset_iterate lb ub l) - t > 0 then reset_iterate lb ub l else ub)
               (reset_iterate lb ub l
                  - (cdf (reset_iterate lb ub l) - t) / pdf (reset_iterate lb ub l)))"
  by (subst invert_trace.simps) (simp only: assms if_True Let_def reset_iterate_def)

lemma invert_loop_step:
  assumes "it < 20"
  shows "invert_loop cdf pdf t it lb ub l =
       (if \<bar>cdf (reset_iterate lb ub l) - t\<bar> < 1 / 10 ^ 5 \<or> it = 19
        then (lb, ub, reset_iterate lb ub l)
        else invert_loop cdf pdf t (it + 1)
               (if cdf (reset_iterate lb ub l) - t > 0 then lb else reset_iterate lb ub l)
               (if cdf (reset_iterate lb ub l) - t > 0 then reset_iterate lb ub l else ub)
               (reset_iterate lb ub l
                  - (cdf (reset_iterate lb ub l) - t) / pdf (reset_iterate lb ub l)))"
  by (subst invert_loop.simps) (simp only: assms if_True Let_def reset_iterate_def)

lemma reset_iterate_inside: "lb \<le> ub \<Longrightarrow> lb \<le> reset_iterate lb ub l \<and> reset_iterate lb ub l \<le> ub"
  by (simp add: reset_iterate_def)

lemma invert_trace_length: "length (invert_trace cdf pdf t it lb ub l) \<le> 20 - it"
proof (induction "20 - it" arbitrary: it lb ub l)
  case 0
  then have "\<not> it < 20" by simp
  then show ?case by (subst invert_trace.simps) simp
next
  case (Suc k)
  then have lt: "it < 20" and k: "k = 20 - (it + 1)" by simp_all
  have rest: "length (if stop then [] else invert_trace cdf pdf t (it + 1) a b c) \<le> 19 - it"
    for stop a b c
    using Suc.hyps(1) [OF k, of a b c] by simp
  have "length (invert_trace cdf pdf t it lb ub l) \<le> Suc (19 - it)"
    by (subst invert_trace_step [OF lt]) (simp only: length_Cons Suc_le_mono rest)
  then show ?case using lt by simp
qed

lemma invert_trace_nonempty: "invert_trace cdf pdf t 0 lb ub l \<noteq> []"
  by (simp add: invert_trace_step)

lemma invert_trace_bracket:
  assumes "lo \<le> lb" "lb \<le> ub" "ub \<le> hi"
  shows "\<forall>s \<in> set (invert_trace cdf pdf t it lb ub l).
           lo \<le> fst s \<and> fst s \<le> snd (snd s) \<and> snd (snd s) \<le> fst (snd s) \<and> fst (snd s) \<le> hi"
  using assms
proof (induction "20 - it" arbitrary: it lb ub l)
  case 0
  then have "\<not> it < 20" by simp
  then show ?case by (subst invert_trace.simps) simp
next
  case (Suc k)
  then have lt: "it < 20" and k: "k = 20 - (it + 1)" by simp_all
  note ins = reset_iterate_inside [OF Suc.prems(2), of l]
  have up: "lo \<le> lb" "lb \<le> reset_iterate lb ub l" "reset_iterate lb ub l \<le> hi"
    and dn: "lo \<le> reset_iterate lb ub l" "reset_iterate lb ub l \<le> ub" "ub \<le> hi"
    using ins Suc.prems by simp_all
  have rec: "\<forall>s \<in> set (invert_trace cdf pdf t (it + 1)
               (if cdf (reset_iterate lb ub l) - t > 0 then lb else reset_iterate lb ub l)
               (if cdf (reset_iterate lb ub l) - t > 0 then reset_iterate lb ub l else ub)
               (reset_iterate lb ub l
                  - (cdf (reset_iterate lb ub l) - t) / pdf (reset_iterate lb ub l))).
           lo \<le> fst s \<and> fst s \<le> snd (snd s) \<and> snd (snd s) \<le> fst (snd s) \<and> fst (snd s) \<le> hi"
  proof (cases "cdf (reset_iterate lb ub l) - t > 0")
    case True
    then show ?thesis using Suc.hyps(1) [OF k up] by simp
  next
    case False
    then show ?thesis using Suc.hyps(1) [OF k dn] by simp
  qed
  show ?case
    unfolding invert_trace_step [OF lt]
    using rec ins Suc.prems by simp
qed

lemma invert_loop_last:
  "it < 20 \<Longrightarrow> invert_loop cdf pdf t it lb ub l = last (invert_trace cdf pdf t it lb ub l)"
proof (induction "20 - it" arbitrary: it lb ub l)
  case 0
  then show ?case by simp
next
  case (Suc k)
  then have lt: "it < 20" and k: "k = 20 - (it + 1)" by simp_all
  show ?case
  proof (cases "\<bar>cdf (reset_iterate lb ub l) - t\<bar> < 1 / 10 ^ 5 \<or> it = 19")
    case True
    then show ?thesis
      unfolding invert_trace_step [OF lt] invert_loop_step [OF lt] by simp
  next
    case False
    then have next_lt: "it + 1 < 20" using lt by simp
    have ne: "invert_trace cdf pdf t (it + 1) a b c \<noteq> []" for a b c
      using invert_trace_step [OF next_lt, of cdf pdf t a b c] by simp
    show ?thesis
      unfolding invert_trace_step [OF lt] invert_loop_step [OF lt]
      using False Suc.hyps(1) [OF k next_lt] ne by simp
  qed
qed

text \<open>
  Claim C8. The inversion is a total function that enters at least one and at most 20
  iterations. In every iteration, at the point where the cdf is evaluated, the iterate
  lies in the bracket \<open>[lb, ub]\<close>, and the bracket lies in
  \<open>[min l0 l1, max l0 l1]\<close>; the loop is left with the bracket and the iterate of its last
  iteration, so the solved parameter lies between the two endpoints as well. This holds
  for whatever functions stand for \<^verbatim>\<open>line_cdf\<close> and \<^verbatim>\<open>line_pdf\<close>, hence for the edge at
  hand.
\<close>

theorem line_cdf_inversion_bracket:
  "length (invert_cdf_trace cdf pdf t l0 l1) \<le> 20 \<and>
   invert_cdf_trace cdf pdf t l0 l1 \<noteq> [] \<and>
   (\<forall>(lb, ub, l) \<in> set (invert_cdf_trace cdf pdf t l0 l1).
      min l0 l1 \<le> lb \<and> lb \<le> l \<and> l \<le> ub \<and> ub \<le> max l0 l1) \<and>
   invert_cdf cdf pdf t l0 l1 = last (invert_cdf_trace cdf pdf t l0 l1) \<and>
   min l0 l1 \<le> snd (snd (invert_cdf cdf pdf t l0 l1)) \<and>
   snd (snd (invert_cdf cdf pdf t l0 l1)) \<le> max l0 l1 \<and>
   min (dot3 v0o (normalize3 (v1o - v0o))) (dot3 v1o (normalize3 (v1o - v0o)))
     \<le> sample_line_parameter v0o v1o t \<and>
   sample_line_parameter v0o v1o t
     \<le> max (dot3 v0o (normalize3 (v1o - v0o))) (dot3 v1o (normalize3 (v1o - v0o)))"
proof -
  have general:
    "length (invert_cdf_trace f g t a b) \<le> 20 \<and>
     invert_cdf_trace f g t a b \<noteq> [] \<and>
     (\<forall>(lb, ub, l) \<in> set (invert_cdf_trace f g t a b).
        min a b \<le> lb \<and> lb \<le> l \<and> l \<le> ub \<and> ub \<le> max a b) \<and>
     invert_cdf f g t a b = last (invert_cdf_trace f g t a b) \<and>
     min a b \<le> snd (snd (invert_cdf f g t a b)) \<and>
     snd (snd (invert_cdf f g t a b)) \<le> max a b" for f g a b
  proof -
    let ?lb = "min a b" and ?ub = "max a b"
    let ?tr = "invert_trace f g t 0 ?lb ?ub ((1 / 2) * (?lb + ?ub))"
    have tr: "invert_cdf_trace f g t a b = ?tr"
      by (simp add: invert_cdf_trace_def initial_bracket_def min_def max_def)
    have res: "invert_cdf f g t a b = invert_loop f g t 0 ?lb ?ub ((1 / 2) * (?lb + ?ub))"
      by (simp add: invert_cdf_def initial_bracket_def min_def max_def)
    have len: "length ?tr \<le> 20"
      using invert_trace_length [of f g t 0] by simp
    have ne: "?tr \<noteq> []"
      by (rule invert_trace_nonempty)
    have inv: "\<forall>s \<in> set ?tr. ?lb \<le> fst s \<and> fst s \<le> snd (snd s) \<and>
                 snd (snd s) \<le> fst (snd s) \<and> fst (snd s) \<le> ?ub"
      by (rule invert_trace_bracket) simp_all
    have last: "invert_loop f g t 0 ?lb ?ub ((1 / 2) * (?lb + ?ub)) = last ?tr"
      by (rule invert_loop_last) simp
    have "last ?tr \<in> set ?tr"
      using ne by simp
    with inv have fin: "?lb \<le> snd (snd (last ?tr)) \<and> snd (snd (last ?tr)) \<le> ?ub"
      by force
    have inv': "\<forall>(lb, ub, l) \<in> set ?tr. ?lb \<le> lb \<and> lb \<le> l \<and> l \<le> ub \<and> ub \<le> ?ub"
      using inv by force
    show ?thesis
      unfolding tr res last using len ne inv' fin by simp
  qed
  define wt where "wt = normalize3 (v1o - v0o)"
  define a where "a = dot3 v0o wt"
  define b where "b = dot3 v1o wt"
  define vo where "vo = v0o - scale3 a wt"
  define d where "d = length3 vo"
  have slp: "sample_line_parameter v0o v1o t =
          snd (snd (invert_cdf (line_cdf d vo wt a b) (line_pdf d vo wt a b) t a b))"
    by (simp add: sample_line_parameter_def Let_def wt_def a_def b_def vo_def d_def)
  from general [of "line_cdf d vo wt a b" "line_pdf d vo wt a b" a b]
  have "min a b \<le> sample_line_parameter v0o v1o t \<and> sample_line_parameter v0o v1o t \<le> max a b"
    unfolding slp by blast
  then have concrete:
    "min (dot3 v0o (normalize3 (v1o - v0o))) (dot3 v1o (normalize3 (v1o - v0o)))
       \<le> sample_line_parameter v0o v1o t \<and>
     sample_line_parameter v0o v1o t
       \<le> max (dot3 v0o (normalize3 (v1o - v0o))) (dot3 v1o (normalize3 (v1o - v0o)))"
    unfolding a_def b_def wt_def .
  from general [of cdf pdf l0 l1] concrete show ?thesis by blast
qed

text \<open>A run on the cdf \<open>l\<close> over \<open>[0, 1]\<close> with \<open>t = 1/4\<close>: one Newton step, two iterations.\<close>

lemma two_iterations:
  "invert_cdf_trace (\<lambda>l. l) (\<lambda>l. 1) (1 / 4) 0 1 = [(0, 1, 1 / 2), (0, 1 / 2, 1 / 4)]"
  by (simp add: invert_cdf_trace_def initial_bracket_def invert_trace_step reset_iterate_def)

theorem line_cdf_inversion_bracket_witness:
  "invert_cdf_trace (\<lambda>l. l) (\<lambda>l. 1) (1 / 4) 0 1 = [(0, 1, 1 / 2), (0, 1 / 2, 1 / 4)] \<and>
   invert_cdf (\<lambda>l. l) (\<lambda>l. 1) (1 / 4) 0 1 = (0, 1 / 2, 1 / 4)"
  using line_cdf_inversion_bracket [of "\<lambda>l. l" "\<lambda>l. 1" "1 / 4" 0 1] two_iterations
  by simp

subsection \<open>Resampled importance sampling of an edge\<close>

text \<open>
  The branch \<^verbatim>\<open>if (edges_pmf != nullptr)\<close> of the secondary sampler, lines 1043 to 1127.
\<close>

definition modulo :: "real \<Rightarrow> real \<Rightarrow> real" where
  \<comment> \<open>Modelled from the spec: \<^verbatim>\<open>modulo\<close> is declared in a header
      that is not among the
      sources; the specification has the stratified sample offset by \<open>i/M\<close> and wrapped
      into the unit interval.\<close>
  "modulo a b = a - b * of_int \<lfloor>a / b\<rfloor>"

text \<open>Lines 1065 and 1066: the test named \<^verbatim>\<open>same_tri\<close>.\<close>

definition same_tri :: "Edge \<Rightarrow> Intersection \<Rightarrow> bool" where
  "same_tri edge shading_isect =
     (edge_shape_id edge = isect_shape_id shading_isect \<and>
      (edge_v0 edge = isect_tri_id shading_isect \<or> edge_v1 edge = isect_tri_id shading_isect))"

text \<open>
  Lines 1061 to 1102: the value left in \<^verbatim>\<open>edge_weights[sample_id]\<close> for the candidate
  \<open>edge_id\<close>.
\<close>

definition candidate_weight ::
  "Shapes \<Rightarrow> (int \<Rightarrow> Edge) \<Rightarrow> (int \<Rightarrow> real) \<Rightarrow> Intersection \<Rightarrow> SurfacePoint \<Rightarrow> Matrix3x3
     \<Rightarrow> int \<Rightarrow> real" where
  "candidate_weight shapes edges edges_pmf shading_isect shading_point m_inv edge_id =
     (let edge = edges edge_id
      in if edges_pmf edge_id > 0 \<and>
            is_silhouette shapes (position shading_point) edge \<and>
            \<not> same_tri edge shading_isect
         then
           let v0 = get_v0 shapes edge;
               v1 = get_v1 shapes edge
           in if length_squared3 (v1 - v0) > 1 / 10 ^ 10 then
                let v0o = mat_vec m_inv (v0 - position shading_point);
                    v1o = mat_vec m_inv (v1 - position shading_point)
                in if z3 v0o > 0 \<or> z3 v1o > 0 then
                     let v0o = (if z3 v0o < 0
                                then divide3 (scale3 (z3 v1o) v0o - scale3 (z3 v0o) v1o)
                                       (z3 v1o - z3 v0o)
                                else v0o);
                         v1o = (if z3 v1o < 0
                                then divide3 (scale3 (z3 v1o) v0o - scale3 (z3 v0o) v1o)
                                       (z3 v1o - z3 v0o)
                                else v1o);
                         vodir = v1o - v0o;
                         wt = normalize3 vodir;
                         l0 = dot3 v0o wt;
                         l1 = dot3 v1o wt;
                         vo = v0o - scale3 l0 wt;
                         d = length3 vo;
                         Il0 = line_integral d vo wt l0;
                         Il1 = line_integral d vo wt l1
                     in max ((Il1 - Il0) / edges_pmf edge_id) 0
                   else 0
              else 0
         else 0)"

text \<open>
  Lines 1056 to 1060: the edge of candidate \<open>sample_id\<close>, by binary search on the cdf with
  the stratified sample; \<open>M = 64\<close>.
\<close>

datatype SecondaryEdgeSample =
  SecondaryEdgeSample (secondary_edge_sel: real) (resample_sel: real) (bsdf_component: real)
                      (secondary_t: real)

definition candidate_edge_id ::
  "(int \<Rightarrow> real) \<Rightarrow> int \<Rightarrow> SecondaryEdgeSample \<Rightarrow> nat \<Rightarrow> int" where
  "candidate_edge_id edges_cdf num_edges edge_sample sample_id =
     clamp (upper_bound edges_cdf num_edges
              (modulo (secondary_edge_sel edge_sample + real sample_id / 64) 1) - 1)
       0 (num_edges - 1)"

text \<open>
  The running sum \<^verbatim>\<open>resample_cdf\<close> of lines 1103 to 1107, and the search of lines 1115
  to 1120 for the first candidate whose running sum reaches \<^verbatim>\<open>resample_u\<close>.
\<close>

fun running_sum :: "real \<Rightarrow> real list \<Rightarrow> real list" where
  "running_sum acc [] = []"
| "running_sum acc (w # ws) = (acc + w) # running_sum (acc + w) ws"

fun first_reaching :: "real \<Rightarrow> real list \<Rightarrow> nat \<Rightarrow> nat option" where
  "first_reaching u [] sample_id = None"
| "first_reaching u (c # cs) sample_id =
     (if u \<le> c then Some sample_id else first_reaching u cs (sample_id + 1))"

text \<open>
  The whole branch. \<open>Inr None\<close> is an early \<^verbatim>\<open>return\<close> of \<^verbatim>\<open>operator()\<close>, \<open>Inr (Some _)\<close> the
  chosen \<^verbatim>\<open>edge_id\<close> with \<^verbatim>\<open>edge_sample_weight\<close>. When the search finds no candidate,
  \<^verbatim>\<open>resample_id\<close> stays \<open>-1\<close> and line 1121 reads \<^verbatim>\<open>edge_weights[-1]\<close>, outside the array.
\<close>

definition resample_edge ::
  "Shapes \<Rightarrow> (int \<Rightarrow> Edge) \<Rightarrow> int \<Rightarrow> (int \<Rightarrow> real) \<Rightarrow> (int \<Rightarrow> real) \<Rightarrow> Intersection
     \<Rightarrow> SurfacePoint \<Rightarrow> Matrix3x3 \<Rightarrow> SecondaryEdgeSample
     \<Rightarrow> error + (int \<times> real) option" where
  "resample_edge shapes edges num_edges edges_pmf edges_cdf shading_isect shading_point m_inv
     edge_sample =
     (let edge_ids = map (candidate_edge_id edges_cdf num_edges edge_sample) [0 ..< 64];
          edge_weights =
            map (candidate_weight shapes edges edges_pmf shading_isect shading_point m_inv)
              edge_ids;
          resample_cdf = running_sum 0 edge_weights
      in if last resample_cdf \<le> 0 then Inr None
         else
           let resample_u = resample_sel edge_sample * last resample_cdf
           in case first_reaching resample_u resample_cdf 0 of
                None \<Rightarrow> Inl OutOfBounds
              | Some resample_id \<Rightarrow>
                  if edge_weights ! resample_id \<le> 0 then Inr None
                  else
                    Inr (Some (edge_ids ! resample_id,
                               (last resample_cdf / 64)
                                 / (edge_weights ! resample_id
                                      * edges_pmf (edge_ids ! resample_id)))))"

text \<open>
  A scene with a single edge: the boundary edge between the vertices 7 and 8 of shape 0,
  a side of triangle 5, running from \<open>(-1, 0, 0)\<close> to \<open>(-1, 1, 0)\<close>. The shading point is
  the origin, inside triangle 5, whose third vertex is \<open>(2, -1, 0)\<close>; its interpolated
  shading normal \<open>(-3/5, 0, 4/5)\<close> leans off the geometric normal, so the edge rises above
  the tangent plane of the shading frame.
\<close>

definition rim_shapes :: Shapes where
  "rim_shapes =
     \<lparr>get_v0 = (\<lambda>e. Vector3 (- 1) 0 0), get_v1 = (\<lambda>e. Vector3 (- 1) 1 0),
      is_silhouette = (\<lambda>p e. True),
      compute_exterior_dihedral_angle = (\<lambda>e. pi)\<rparr>"

definition rim_edge :: Edge where
  "rim_edge = Edge 0 7 8 5 (- 1)"

definition rim_isect :: Intersection where
  "rim_isect = Intersection 0 5"

definition leaning_point :: SurfacePoint where
  "leaning_point =
     \<lparr>position = Vector3 0 0 0, geom_normal = Vector3 0 0 1,
      shading_frame =
        Frame (Vector3 (4 / 5) 0 (3 / 5)) (Vector3 0 1 0) (Vector3 (- 3 / 5) 0 (4 / 5)),
      dn_dx = Vector3 0 0 0, dn_dy = Vector3 0 0 0\<rparr>"

definition leaning_frame :: Matrix3x3 where
  "leaning_frame =
     Matrix3x3 (Vector3 (4 / 5) 0 (3 / 5)) (Vector3 0 1 0) (Vector3 (- 3 / 5) 0 (4 / 5))"

definition first_sample :: SecondaryEdgeSample where
  "first_sample = SecondaryEdgeSample (1 / 2) 0 0 (1 / 2)"

lemma rim_same_tri: "\<not> same_tri rim_edge rim_isect"
  by (simp add: same_tri_def rim_edge_def rim_isect_def)

lemma rim_weight:
  "candidate_weight rim_shapes (\<lambda>i. rim_edge) (\<lambda>i. 1) rim_isect leaning_point leaning_frame 0
     = (1 / 2 + arctan 1) * (3 / 5)"
proof -
  define v0o where "v0o = Vector3 (- 4 / 5) 0 (3 / 5)"
  define v1o where "v1o = Vector3 (- 4 / 5) 1 (3 / 5)"
  define wt where "wt = Vector3 0 1 0"
  have g: "get_v0 rim_shapes rim_edge = Vector3 (- 1) 0 0"
    "get_v1 rim_shapes rim_edge = Vector3 (- 1) 1 0"
    "position leaning_point = Vector3 0 0 0"
    by (simp_all add: rim_shapes_def leaning_point_def)
  have sil: "is_silhouette rim_shapes (Vector3 0 0 0) rim_edge"
    by (simp add: rim_shapes_def)
  have long: "length_squared3 (Vector3 (- 1) 1 0 - Vector3 (- 1) 0 0) > 1 / 10 ^ 10"
    by (simp add: length_squared3_def dot3_def minus_Vector3_def)
  have v: "mat_vec leaning_frame (Vector3 (- 1) 0 0 - Vector3 0 0 0) = v0o"
    "mat_vec leaning_frame (Vector3 (- 1) 1 0 - Vector3 0 0 0) = v1o"
    by (simp_all add: mat_vec_def leaning_frame_def dot3_def minus_Vector3_def v0o_def v1o_def)
  have z: "z3 v0o > 0 \<or> z3 v1o > 0" "\<not> z3 v0o < 0" "\<not> z3 v1o < 0"
    by (simp_all add: v0o_def v1o_def)
  have dir: "normalize3 (v1o - v0o) = wt"
    by (simp add: v0o_def v1o_def wt_def normalize3_def divide3_def length3_def
          length_squared3_def dot3_def minus_Vector3_def)
  have l: "dot3 v0o wt = 0" "dot3 v1o wt = 1"
    by (simp_all add: v0o_def v1o_def wt_def dot3_def)
  have vo: "v0o - scale3 0 wt = v0o"
    by (simp add: v0o_def wt_def scale3_def minus_Vector3_def)
  have d: "length3 v0o = 1"
    by (simp add: v0o_def length3_def length_squared3_def dot3_def)
  have i0: "line_integral 1 v0o wt 0 = 0"
    by (simp add: line_integral_def)
  have i1: "line_integral 1 v0o wt 1 = (1 / 2 + arctan 1) * (3 / 5)"
    by (simp add: line_integral_def v0o_def wt_def)
  have pos: "0 \<le> (1 / 2 + arctan 1) * (3 / 5)"
    by (simp add: add_nonneg_nonneg)
  have "candidate_weight rim_shapes (\<lambda>i. rim_edge) (\<lambda>i. 1) rim_isect leaning_point leaning_frame 0
     = max (((1 / 2 + arctan 1) * (3 / 5) - 0) / 1) 0"
    unfolding candidate_weight_def Let_def g v
    using rim_same_tri long z sil
    by (simp only: dir l vo d i0 i1 if_True if_False simp_thms zero_less_one)
  then show ?thesis using pos by simp
qed

lemma same_tri_weight:
  "same_tri (edges edge_id) shading_isect \<Longrightarrow>
   candidate_weight shapes edges edges_pmf shading_isect shading_point m_inv edge_id = 0"
  by (simp add: candidate_weight_def)

lemma clamp_single: "clamp v 0 0 = 0"
  by (simp add: clamp_def)

lemma last_running_sum_replicate:
  "0 < n \<Longrightarrow> last (running_sum acc (replicate n w)) = acc + real n * w"
proof (induction n arbitrary: acc)
  case 0
  then show ?case by simp
next
  case (Suc n)
  show ?case
  proof (cases n)
    case 0
    then show ?thesis by simp
  next
    case (Suc m)
    then have "running_sum (acc + w) (replicate n w) \<noteq> []" by simp
    with Suc.IH [of "acc + w"] Suc show ?thesis by (simp add: algebra_simps)
  qed
qed

text \<open>
  Claim C1 on that scene. The candidate edge has the intersected triangle as its face
  \<open>f0\<close>, in the same shape; \<^verbatim>\<open>same_tri\<close> compares the vertex indices \<open>v0\<close> and \<open>v1\<close> of the
  edge with the triangle index and is false; the resampling weight of the candidate is
  positive, and the resampling returns this very edge.
\<close>

theorem same_triangle_candidate_kept:
  "edge_shape_id rim_edge = isect_shape_id rim_isect \<and>
   edge_f0 rim_edge = isect_tri_id rim_isect \<and>
   \<not> same_tri rim_edge rim_isect \<and>
   0 < candidate_weight rim_shapes (\<lambda>i. rim_edge) (\<lambda>i. 1) rim_isect leaning_point leaning_frame 0 \<and>
   resample_edge rim_shapes (\<lambda>i. rim_edge) 1 (\<lambda>i. 1) (\<lambda>i. 0) rim_isect leaning_point
     leaning_frame first_sample = Inr (Some (0, 1))"
proof -
  define w :: real where "w = (1 / 2 + arctan 1) * (3 / 5)"
  have wpos: "0 < w"
    unfolding w_def by (simp add: add_pos_pos)
  have "candidate_edge_id (\<lambda>i. 0) 1 first_sample k = 0" for k
    by (simp add: candidate_edge_id_def clamp_single)
  then have "candidate_edge_id (\<lambda>i. 0) 1 first_sample = (\<lambda>k. 0)"
    by (rule ext)
  then have ids: "map (candidate_edge_id (\<lambda>i. 0) 1 first_sample) [0 ..< 64] = replicate 64 0"
    by (simp only: map_replicate_const length_upt) simp
  have ws: "map (candidate_weight rim_shapes (\<lambda>i. rim_edge) (\<lambda>i. 1) rim_isect leaning_point
                   leaning_frame) (replicate 64 0) = replicate 64 w"
    by (simp only: map_replicate rim_weight w_def)
  have total: "last (running_sum 0 (replicate 64 w)) = 64 * w"
    using last_running_sum_replicate [of 64 0 w] by simp
  have "replicate 64 w = w # replicate 63 w"
    using replicate_Suc [of 63 w] by simp
  then have first: "first_reaching 0 (running_sum 0 (replicate 64 w)) 0 = Some 0"
    using wpos by simp
  have run: "resample_edge rim_shapes (\<lambda>i. rim_edge) 1 (\<lambda>i. 1) (\<lambda>i. 0) rim_isect leaning_point
     leaning_frame first_sample = Inr (Some (0, 1))"
    unfolding resample_edge_def Let_def ids ws total
    using wpos first by (simp add: first_sample_def)
  have cw: "0 < candidate_weight rim_shapes (\<lambda>i. rim_edge) (\<lambda>i. 1) rim_isect leaning_point
                  leaning_frame 0"
    unfolding rim_weight using wpos by (simp only: w_def)
  have f: "edge_shape_id rim_edge = isect_shape_id rim_isect"
    "edge_f0 rim_edge = isect_tri_id rim_isect"
    by (simp_all add: rim_edge_def rim_isect_def)
  show ?thesis
    using f rim_same_tri cw run by blast
qed

end
